theory Spec2Isabelle
  imports Complex_Main
begin

section \<open>The hover service of react-page: drop-zone classification\<close>

text \<open>
  This theory embeds \<^verbatim>\<open>packages/core/src/service/hover/index.ts\<close>.

  Numbers. A JavaScript \<^verbatim>\<open>number\<close> that holds a pixel quantity (room, mouse, scale,
  relative position) is a \<^typ>\<open>real\<close>; a number that is the result of
  \<^verbatim>\<open>Math.floor\<close> or \<^verbatim>\<open>Math.round\<close>, an array length, a zone code or a nesting
  level is an \<^typ>\<open>int\<close>. \<^verbatim>\<open>Math.round x\<close> is \<open>\<lfloor>x + 1/2\<rfloor>\<close>, which is
  \<^const>\<open>round\<close>. The non-finite values of JavaScript (a division by zero gives
  \<^verbatim>\<open>Infinity\<close> or \<^verbatim>\<open>NaN\<close>) have no counterpart in \<^typ>\<open>real\<close>, where
  \<open>a / 0 = 0\<close>; every statement below whose truth depends on a quotient therefore
  assumes that the divisor is not zero. Rounding errors of the binary floating point
  format are not modelled.

  Names. Where a name of the source is taken in HOL, it carries a suffix or prefix:
  the fields \<open>x\<close>, \<open>y\<close> of a vector are \<open>vx\<close>, \<open>vy\<close>; \<open>id\<close> and
  \<open>levels\<close> of a node are \<open>node_id\<close> and \<open>node_levels\<close>; the parameters
  \<open>size\<close>, \<open>at\<close> and \<open>inv\<close> are \<open>size_px\<close>, \<open>at_lvl\<close> and \<open>inv_flag\<close>;
  the fields of the context, the memo key and the diagnostic carry the prefixes
  \<open>ctx_\<close>, \<open>memo_\<close> and \<open>log_\<close>; the entry of the callback table for a zone
  class \<open>c.XX\<close> is \<open>cb_XX\<close>, and the class itself is \<open>c_XX\<close>.

  Effects. The action-dispatch object is only ever called, so a call is recorded as a
  value of type \<open>call\<close> and an interpreter returns the list of the calls it made,
  in order. The module-level cache \<^verbatim>\<open>last\<close> (named \<open>cache\<close> below) is passed in
  and returned. The logger is a list of the diagnostics emitted. A \<^verbatim>\<open>TypeError\<close>
  thrown by reading a property of \<^verbatim>\<open>undefined\<close> is the left summand of the result.
\<close>

subsection \<open>Data\<close>

text \<open>\<^verbatim>\<open>Vector = {x, y}\<close>; the fields are named \<open>vx\<close> and \<open>vy\<close>.\<close>

record Vector =
  vx :: real
  vy :: real

record Room =
  width :: real
  height :: real

record MatrixIndex =
  row :: int
  cell :: int

text \<open>The \<^verbatim>\<open>size: {rows, cells}\<close> member of the context.\<close>

record Size =
  size_rows :: int
  size_cells :: int

text \<open>\<^verbatim>\<open>type Context = {room, mouse, position, size, scale}\<close>.\<close>

record Context =
  ctx_room :: Room
  ctx_mouse :: Vector
  ctx_position :: MatrixIndex
  ctx_size :: Size
  ctx_scale :: Vector

type_synonym Matrix = "int list list"

type_synonym MatrixList = "string \<rightharpoonup> Matrix"

text \<open>
  Modelled from the spec: the node types and \<^verbatim>\<open>isRow\<close> of
  \<^verbatim>\<open>types/editable\<close>, which is not among the sources. A node is a row or a cell
  (the kind discriminator); both carry an identity and the per-direction maximum
  nesting levels; a cell carries the inline marker (none, left or right), the identity
  of an inline neighbour if any, and the capability flag \<^verbatim>\<open>isInlineable\<close> of its
  content plugin. \<open>None\<close> stands for \<^verbatim>\<open>undefined\<close>.
\<close>

record Levels =
  lv_left :: int
  lv_right :: int
  lv_above :: int
  lv_below :: int

datatype inline_side = SideLeft | SideRight

record Plugin =
  isInlineable :: "bool option"

record Content =
  plugin :: "Plugin option"

datatype Node =
    Row (node_id: string) (node_levels: Levels)
  | Cell (node_id: string) (node_levels: Levels) (inline: "inline_side option")
      (hasInlineNeighbour: "string option") (content: "Content option")

fun isRow :: "Node \<Rightarrow> bool" where
  "isRow (Row i l) = True"
| "isRow (Cell i l inl nb c) = False"

text \<open>
  The action-dispatch object \<^verbatim>\<open>Callbacks\<close> of \<^verbatim>\<open>types/hover\<close>. Its methods are
  external; the engine only calls them and stores the object in the memo key, where it
  is compared. It is modelled by its identity.
\<close>

datatype Callbacks = Callbacks nat

text \<open>One call of a method of the action-dispatch object, with its arguments.\<close>

datatype call =
    Clear
  | Above Node Node int
  | Below Node Node int
  | LeftOf Node Node int
  | RightOf Node Node int
  | InlineLeft Node Node
  | InlineRight Node Node

type_synonym callback = "Node \<Rightarrow> Node \<Rightarrow> Callbacks \<Rightarrow> Context \<Rightarrow> call list"

type_synonym CallbackList = "int \<rightharpoonup> callback"

subsection \<open>Zone classes and the default matrices\<close>

definition c_NO :: int where "c_NO = 0"
definition c_C1 :: int where "c_C1 = 10"
definition c_C2 :: int where "c_C2 = 11"
definition c_C3 :: int where "c_C3 = 12"
definition c_C4 :: int where "c_C4 = 13"
definition c_AH :: int where "c_AH = 200"
definition c_AA :: int where "c_AA = 201"
definition c_BH :: int where "c_BH = 210"
definition c_BA :: int where "c_BA = 211"
definition c_LH :: int where "c_LH = 220"
definition c_LA :: int where "c_LA = 221"
definition c_RH :: int where "c_RH = 230"
definition c_RA :: int where "c_RA = 231"
definition c_IL :: int where "c_IL = 300"
definition c_IR :: int where "c_IR = 301"

lemmas classes_defs =
  c_NO_def c_C1_def c_C2_def c_C3_def c_C4_def c_AH_def c_AA_def c_BH_def c_BA_def
  c_LH_def c_LA_def c_RH_def c_RA_def c_IL_def c_IR_def

definition matrix_6x6 :: Matrix where
  "matrix_6x6 =
   [[c_C1, c_AA, c_AA, c_AA, c_AA, c_C2],
    [c_LA, c_IL, c_AH, c_AH, c_IR, c_RA],
    [c_LA, c_LH, c_NO, c_NO, c_RH, c_RA],
    [c_LA, c_LH, c_NO, c_NO, c_RH, c_RA],
    [c_LA, c_C4, c_BH, c_BH, c_C3, c_RA],
    [c_C4, c_BA, c_BA, c_BA, c_BA, c_C3]]"

definition matrix_10x10 :: Matrix where
  "matrix_10x10 =
   [[c_C1, c_AA, c_AA, c_AA, c_AA, c_AA, c_AA, c_AA, c_AA, c_C2],
    [c_LA, c_IL, c_IL, c_IL, c_AH, c_AH, c_IR, c_IR, c_IR, c_RA],
    [c_LA, c_IL, c_IL, c_IL, c_AH, c_AH, c_IR, c_IR, c_IR, c_RA],
    [c_LA, c_IL, c_IL, c_IL, c_AH, c_AH, c_IR, c_IR, c_IR, c_RA],
    [c_LA, c_LH, c_LH, c_LH, c_C1, c_C2, c_RH, c_RH, c_RH, c_RA],
    [c_LA, c_LH, c_LH, c_LH, c_C4, c_C3, c_RH, c_RH, c_RH, c_RA],
    [c_LA, c_LH, c_LH, c_C4, c_BH, c_BH, c_C3, c_IR, c_RH, c_RA],
    [c_LA, c_LH, c_C4, c_BH, c_BH, c_BH, c_BH, c_C3, c_RH, c_RA],
    [c_LA, c_C4, c_BH, c_BH, c_BH, c_BH, c_BH, c_BH, c_C3, c_RA],
    [c_C4, c_BA, c_BA, c_BA, c_BA, c_BA, c_BA, c_BA, c_BA, c_C3]]"

definition matrix_10x10_no_inline :: Matrix where
  "matrix_10x10_no_inline =
   [[c_C1, c_AA, c_AA, c_AA, c_AA, c_AA, c_AA, c_AA, c_AA, c_C2],
    [c_LA, c_C1, c_AH, c_AH, c_AH, c_AH, c_AH, c_AH, c_C2, c_RA],
    [c_LA, c_LH, c_C1, c_AH, c_AH, c_AH, c_AH, c_C2, c_RH, c_RA],
    [c_LA, c_LH, c_LH, c_C1, c_AH, c_AH, c_C2, c_RH, c_RH, c_RA],
    [c_LA, c_LH, c_LH, c_LH, c_C1, c_C2, c_RH, c_RH, c_RH, c_RA],
    [c_LA, c_LH, c_LH, c_LH, c_C4, c_C3, c_RH, c_RH, c_RH, c_RA],
    [c_LA, c_LH, c_LH, c_C4, c_BH, c_BH, c_C3, c_RH, c_RH, c_RA],
    [c_LA, c_LH, c_C4, c_BH, c_BH, c_BH, c_BH, c_C3, c_RH, c_RA],
    [c_LA, c_C4, c_BH, c_BH, c_BH, c_BH, c_BH, c_BH, c_C3, c_RA],
    [c_C4, c_BA, c_BA, c_BA, c_BA, c_BA, c_BA, c_BA, c_BA, c_C3]]"

definition defaultMatrices :: MatrixList where
  "defaultMatrices name =
     (if name = ''6x6'' then Some matrix_6x6
      else if name = ''10x10'' then Some matrix_10x10
      else if name = ''10x10-no-inline'' then Some matrix_10x10_no_inline
      else None)"

subsection \<open>Scale and cell location\<close>

datatype js_error = TypeError

text \<open>
  Reading \<^verbatim>\<open>xs[i]\<close> for an integer-valued \<^verbatim>\<open>i\<close>: \<^verbatim>\<open>undefined\<close> (here
  \<open>None\<close>) outside the array.
\<close>

definition js_index :: "'a list \<Rightarrow> int \<Rightarrow> 'a option" where
  "js_index xs i = (if 0 \<le> i \<and> i < int (length xs) then Some (xs ! nat i) else None)"

text \<open>
  \<^verbatim>\<open>getRoomScale\<close>. \<^verbatim>\<open>matrix[0].length\<close> throws when the matrix has no row.
\<close>

definition getRoomScale :: "Room \<Rightarrow> Matrix \<Rightarrow> js_error + Vector" where
  "getRoomScale room matrix =
     (case js_index matrix 0 of
        None \<Rightarrow> Inl TypeError
      | Some row0 \<Rightarrow>
          (let rows = int (length matrix);
               cells = int (length row0);
               scalingX = width room / real_of_int cells;
               scalingY = height room / real_of_int rows
           in Inr \<lparr>vx = scalingX, vy = scalingY\<rparr>))"

text \<open>
  \<^verbatim>\<open>getMouseHoverCell\<close>. The quotient is that of the reals; next to a cell boundary
  the quotient of two doubles may round to the other side of it (width 7, ten cells,
  \<open>x\<close> just below 7), so nothing below is stated about which pointers fall into
  which cell, only about the index once it is computed.
\<close>

definition getMouseHoverCell :: "Vector \<Rightarrow> Vector \<Rightarrow> MatrixIndex" where
  "getMouseHoverCell mouse scale =
     \<lparr>row = \<lfloor>vy mouse / vy scale\<rfloor>, cell = \<lfloor>vx mouse / vx scale\<rfloor>\<rparr>"

text \<open>
  The two assignments to \<^verbatim>\<open>hoverCell\<close> in \<^verbatim>\<open>computeHover\<close> (the row first, then
  the cell).
\<close>

definition clampHoverCell :: "MatrixIndex \<Rightarrow> int \<Rightarrow> int \<Rightarrow> MatrixIndex" where
  "clampHoverCell hoverCell rows cells =
     (let hc1 = (if row hoverCell \<ge> rows then hoverCell\<lparr>row := rows - 1\<rparr>
                 else if row hoverCell < 0 then hoverCell\<lparr>row := 0\<rparr>
                 else hoverCell)
      in (if cell hc1 \<ge> cells then hc1\<lparr>cell := cells - 1\<rparr>
          else if cell hc1 < 0 then hc1\<lparr>cell := 0\<rparr>
          else hc1))"

subsection \<open>Level computation\<close>

definition relativeMousePosition :: "Vector \<Rightarrow> MatrixIndex \<Rightarrow> Vector \<Rightarrow> Vector" where
  "relativeMousePosition mouse position scale =
     \<lparr>vx = real_of_int (round (vx mouse - real_of_int (cell position) * vx scale)),
      vy = real_of_int (round (vy mouse - real_of_int (row position) * vy scale))\<rparr>"

text \<open>
  The \<^verbatim>\<open>for\<close> loop of \<^verbatim>\<open>computeLevel\<close>, entered with the counter \<open>i\<close>, the array
  \<open>steps\<close> and \<open>current\<close>. \<^verbatim>\<open>steps.push\<close> appends. It ends with \<open>levels\<close> when
  no band holds the position.
\<close>

function computeLevel_loop :: "int \<Rightarrow> real \<Rightarrow> nat \<Rightarrow> real list \<Rightarrow> real \<Rightarrow> int" where
  "computeLevel_loop levels position i steps current =
     (if int i \<le> levels then
        (let steps' = steps @ [steps ! i + current / 2];
             current' = current / 2
         in if position \<ge> steps' ! i + real i * 2
               \<and> position < steps' ! (i + 1) + (real i + 1) * 2
            then int i
            else computeLevel_loop levels position (i + 1) steps' current')
      else levels)"
  by pat_completeness auto
termination
  by (relation "measure (\<lambda>(levels, position, i, steps, current). nat (levels + 1 - int i))") auto

declare computeLevel_loop.simps [simp del]

text \<open>
  \<^verbatim>\<open>computeLevel\<close>. The number of levels is integer-valued (a nesting limit of a
  node). In the dense branch with \<open>levels = 0\<close> and a positive size, JavaScript
  computes \<open>position / Infinity = 0\<close>, and the model \<open>position / 0 = 0\<close>.
\<close>

definition computeLevel :: "real \<Rightarrow> int \<Rightarrow> real \<Rightarrow> int" where
  "computeLevel size_px levels position =
     (if size_px \<le> (real_of_int levels + 1) * 2
      then round (position / (size_px / real_of_int levels))
      else (let spare = size_px - (real_of_int levels + 1) * 2
            in computeLevel_loop levels position 0 [0] spare))"

definition computeHorizontal ::
  "Vector \<Rightarrow> MatrixIndex \<Rightarrow> Node \<Rightarrow> Vector \<Rightarrow> int \<Rightarrow> bool \<Rightarrow> int" where
  "computeHorizontal mouse position hover scale level inv_flag =
     (let x = vx (relativeMousePosition mouse position scale);
          at_lvl = computeLevel (vx scale) level x
      in if isRow hover then level
         else (let at_lvl' = (if inline hover \<noteq> None \<and> at_lvl = 0 then 1 else at_lvl)
               in if inv_flag then level - at_lvl' else at_lvl'))"

definition computeVertical ::
  "int \<Rightarrow> Vector \<Rightarrow> Node \<Rightarrow> MatrixIndex \<Rightarrow> Vector \<Rightarrow> bool \<Rightarrow> int" where
  "computeVertical level mouse hover position scale inv_flag =
     (let y = vy (relativeMousePosition mouse position scale);
          at_lvl = computeLevel (vy scale) level y
      in if isRow hover then level
         else (let at_lvl' = (if inline hover \<noteq> None \<and> at_lvl = 0 then 1 else at_lvl)
               in if inv_flag then level - at_lvl' else at_lvl'))"

definition getDropLevel :: "Node \<Rightarrow> int" where
  "getDropLevel hover = (if \<not> isRow hover \<and> inline hover \<noteq> None then 1 else 0)"

subsection \<open>The zone interpreters\<close>

text \<open>
  Each interpreter returns the calls it makes on the action-dispatch object. A
  \<^verbatim>\<open>return f(...)\<close> is the call \<open>f\<close> followed by the end of the function.
\<close>

definition cb_NO :: callback where
  "cb_NO item hover actions ctx = [Clear]"

definition cb_C1 :: callback where
  "cb_C1 item hover actions ctx =
     (let mouse = relativeMousePosition (ctx_mouse ctx) (ctx_position ctx) (ctx_scale ctx);
          level = getDropLevel hover
      in if vx mouse < vy mouse then [LeftOf item hover level]
         else [Above item hover level])"

definition cb_C2 :: callback where
  "cb_C2 item hover actions ctx =
     (let mouse = relativeMousePosition (ctx_mouse ctx) (ctx_position ctx) (ctx_scale ctx);
          level = getDropLevel hover
      in if vx mouse > vy mouse then [RightOf item hover level]
         else [Above item hover level])"

definition cb_C3 :: callback where
  "cb_C3 item hover actions ctx =
     (let mouse = relativeMousePosition (ctx_mouse ctx) (ctx_position ctx) (ctx_scale ctx);
          level = getDropLevel hover
      in if vx mouse > vy mouse then [RightOf item hover level]
         else [Below item hover level])"

definition cb_C4 :: callback where
  "cb_C4 item hover actions ctx =
     (let mouse = relativeMousePosition (ctx_mouse ctx) (ctx_position ctx) (ctx_scale ctx);
          level = getDropLevel hover
      in if vx mouse < vy mouse then [LeftOf item hover level]
         else [Below item hover level])"

definition cb_AH :: callback where
  "cb_AH item hover actions ctx = (let level = getDropLevel hover in [Above item hover level])"

definition cb_BH :: callback where
  "cb_BH item hover actions ctx = (let level = getDropLevel hover in [Below item hover level])"

definition cb_LH :: callback where
  "cb_LH item hover actions ctx = (let level = getDropLevel hover in [LeftOf item hover level])"

definition cb_RH :: callback where
  "cb_RH item hover actions ctx = (let level = getDropLevel hover in [RightOf item hover level])"

definition cb_AA :: callback where
  "cb_AA item hover actions ctx =
     [Above item hover
        (computeVertical (lv_above (node_levels hover)) (ctx_mouse ctx) hover
           (ctx_position ctx) (ctx_scale ctx) True)]"

definition cb_BA :: callback where
  "cb_BA item hover actions ctx =
     [Below item hover
        (computeVertical (lv_below (node_levels hover)) (ctx_mouse ctx) hover
           (ctx_position ctx) (ctx_scale ctx) False)]"

definition cb_LA :: callback where
  "cb_LA item hover actions ctx =
     [LeftOf item hover
        (computeHorizontal (ctx_mouse ctx) (ctx_position ctx) hover (ctx_scale ctx)
           (lv_left (node_levels hover)) True)]"

definition cb_RA :: callback where
  "cb_RA item hover actions ctx =
     [RightOf item hover
        (computeHorizontal (ctx_mouse ctx) (ctx_position ctx) hover (ctx_scale ctx)
           (lv_right (node_levels hover)) False)]"

text \<open>
  A string-or-undefined value in a condition: \<^verbatim>\<open>undefined\<close> and the empty string are
  falsy.
\<close>

definition truthy :: "string option \<Rightarrow> bool" where
  "truthy s = (case s of None \<Rightarrow> False | Some t \<Rightarrow> t \<noteq> [])"

text \<open>
  The destructuring
  \<^verbatim>\<open>const { content: { plugin: { isInlineable = false } = {} } = {} } = item\<close>:
  each default stands in for \<^verbatim>\<open>undefined\<close>.
\<close>

definition isInlineable_of :: "Node \<Rightarrow> bool" where
  "isInlineable_of item =
     (case content item of
        None \<Rightarrow> False
      | Some c \<Rightarrow>
          (case plugin c of
             None \<Rightarrow> False
           | Some p \<Rightarrow> (case isInlineable p of None \<Rightarrow> False | Some b \<Rightarrow> b)))"

definition cb_IL :: callback where
  "cb_IL item hover actions ctx =
     (if isRow item \<or> isRow hover then []
      else if inline hover \<noteq> None \<or> \<not> isInlineable_of item
        then [LeftOf item hover 2]
      else if truthy (hasInlineNeighbour hover)
              \<and> hasInlineNeighbour hover \<noteq> Some (node_id item)
        then [LeftOf item hover 2]
      else if truthy (hasInlineNeighbour hover)
              \<and> hasInlineNeighbour hover = Some (node_id item)
              \<and> inline item = Some SideLeft
        then [LeftOf item hover 2]
      else [InlineLeft item hover])"

definition cb_IR :: callback where
  "cb_IR item hover actions ctx =
     (if isRow item \<or> isRow hover then []
      else if inline hover \<noteq> None \<or> \<not> isInlineable_of item
        then [RightOf item hover 2]
      else if truthy (hasInlineNeighbour hover)
              \<and> hasInlineNeighbour hover \<noteq> Some (node_id item)
        then [RightOf item hover 2]
      else if truthy (hasInlineNeighbour hover)
              \<and> hasInlineNeighbour hover = Some (node_id item)
              \<and> inline item = Some SideRight
        then [RightOf item hover 2]
      else [InlineRight item hover])"

definition defaultCallbacks :: CallbackList where
  "defaultCallbacks k =
     (if k = c_NO then Some cb_NO
      else if k = c_C1 then Some cb_C1
      else if k = c_C2 then Some cb_C2
      else if k = c_C3 then Some cb_C3
      else if k = c_C4 then Some cb_C4
      else if k = c_AH then Some cb_AH
      else if k = c_BH then Some cb_BH
      else if k = c_LH then Some cb_LH
      else if k = c_RH then Some cb_RH
      else if k = c_AA then Some cb_AA
      else if k = c_BA then Some cb_BA
      else if k = c_LA then Some cb_LA
      else if k = c_RA then Some cb_RA
      else if k = c_IL then Some cb_IL
      else if k = c_IR then Some cb_IR
      else None)"

subsection \<open>The hover engine\<close>

text \<open>The object \<^verbatim>\<open>all\<close> that \<^verbatim>\<open>computeHover\<close> stores in \<^verbatim>\<open>last[m]\<close>.\<close>

record Memo =
  memo_item :: string
  memo_hover :: string
  memo_actions :: Callbacks
  memo_ctx :: Context

text \<open>The structured data handed to \<^verbatim>\<open>logger.error\<close>.\<close>

record Diagnostic =
  log_message :: string
  log_room :: Room
  log_mouse :: Vector
  log_matrix :: Matrix
  log_scale :: Vector
  log_hoverCell :: MatrixIndex
  log_rows :: int
  log_cells :: int

text \<open>
  What a call of \<^verbatim>\<open>computeHover\<close> that returns leaves behind: the cache, the calls
  made on the action-dispatch object, and the diagnostics logged.
\<close>

record hover_result =
  last_out :: "string \<rightharpoonup> Memo"
  calls :: "call list"
  logged :: "Diagnostic list"

text \<open>
  Modelled from the spec: \<^verbatim>\<open>deepEquals\<close> of \<^verbatim>\<open>utils/deepEquals\<close>, which is not
  among the sources, is deep structural equality. \<^verbatim>\<open>null\<close> and \<^verbatim>\<open>undefined\<close> in
  the cache are \<open>None\<close>: neither equals a memo object.
\<close>

definition deepEquals :: "'a \<Rightarrow> 'a \<Rightarrow> bool" where
  "deepEquals a b = (a = b)"

text \<open>
  The first part of \<^verbatim>\<open>computeHover\<close>: scale, located cell, matrix dimensions and
  the clamping of the cell, gathered in the context object that the function builds
  from them (twice, with the same members).
\<close>

definition hoverContext :: "Room \<Rightarrow> Vector \<Rightarrow> Matrix \<Rightarrow> js_error + Context" where
  "hoverContext room mouse matrix =
     (case getRoomScale room matrix of
        Inl e \<Rightarrow> Inl e
      | Inr scale \<Rightarrow>
          (let hoverCell = getMouseHoverCell mouse scale;
               rows = int (length matrix)
           in case js_index matrix 0 of
                None \<Rightarrow> Inl TypeError
              | Some row0 \<Rightarrow>
                  (let cells = int (length row0)
                   in Inr \<lparr>ctx_room = room, ctx_mouse = mouse,
                           ctx_position = clampHoverCell hoverCell rows cells,
                           ctx_size = \<lparr>size_rows = rows, size_cells = cells\<rparr>,
                           ctx_scale = scale\<rparr>)))"

text \<open>
  \<^verbatim>\<open>matrix[hoverCell.row][hoverCell.cell]\<close> and \<^verbatim>\<open>callbacks[cell]\<close>. Reading a
  member of a missing row throws; a missing cell is \<^verbatim>\<open>undefined\<close>, for which the
  table has no entry.
\<close>

definition zoneCallback ::
  "CallbackList \<Rightarrow> Matrix \<Rightarrow> MatrixIndex \<Rightarrow> js_error + callback option" where
  "zoneCallback callbacks matrix hoverCell =
     (case js_index matrix (row hoverCell) of
        None \<Rightarrow> Inl TypeError
      | Some r \<Rightarrow>
          (case js_index r (cell hoverCell) of
             None \<Rightarrow> Inr None
           | Some code \<Rightarrow> Inr (callbacks code)))"

definition memoKey :: "Node \<Rightarrow> Node \<Rightarrow> Callbacks \<Rightarrow> Context \<Rightarrow> Memo" where
  "memoKey drag hover actions ctx =
     \<lparr>memo_item = node_id drag, memo_hover = node_id hover, memo_actions = actions,
      memo_ctx = ctx\<rparr>"

definition diagnostic :: "Matrix \<Rightarrow> Context \<Rightarrow> Diagnostic" where
  "diagnostic matrix ctx =
     \<lparr>log_message = ''Matrix callback not found.'',
      log_room = ctx_room ctx, log_mouse = ctx_mouse ctx, log_matrix = matrix,
      log_scale = ctx_scale ctx, log_hoverCell = ctx_position ctx,
      log_rows = size_rows (ctx_size ctx), log_cells = size_cells (ctx_size ctx)\<rparr>"

definition computeHover ::
  "Node \<Rightarrow> Node \<Rightarrow> Callbacks \<Rightarrow> Room \<Rightarrow> Vector \<Rightarrow> Matrix \<Rightarrow> CallbackList \<Rightarrow> string
     \<Rightarrow> (string \<rightharpoonup> Memo) \<Rightarrow> js_error + hover_result" where
  "computeHover drag hover actions room mouse matrix callbacks m cache =
     (case hoverContext room mouse matrix of
        Inl e \<Rightarrow> Inl e
      | Inr ctx \<Rightarrow>
          (case zoneCallback callbacks matrix (ctx_position ctx) of
             Inl e \<Rightarrow> Inl e
           | Inr None \<Rightarrow>
               Inr \<lparr>last_out = cache, calls = [], logged = [diagnostic matrix ctx]\<rparr>
           | Inr (Some cb) \<Rightarrow>
               (let all = memoKey drag hover actions ctx
                in if deepEquals (Some all) (cache m)
                   then Inr \<lparr>last_out = cache, calls = [], logged = []\<rparr>
                   else Inr \<lparr>last_out = cache(m \<mapsto> all),
                             calls = cb drag hover actions ctx, logged = []\<rparr>)))"

text \<open>
  The class \<^verbatim>\<open>HoverService\<close>: its two tables, the constructor with its defaults,
  and the method \<^verbatim>\<open>hover\<close>, whose matrix name defaults to \<^verbatim>\<open>'10x10'\<close>. An
  unknown matrix name gives \<^verbatim>\<open>undefined\<close>, and \<^verbatim>\<open>matrix.length\<close> throws.
\<close>

record HoverService =
  callbacks :: CallbackList
  matrices :: MatrixList

definition new_HoverService :: "MatrixList option \<Rightarrow> CallbackList option \<Rightarrow> HoverService" where
  "new_HoverService ms cbs =
     \<lparr>callbacks = (case cbs of None \<Rightarrow> defaultCallbacks | Some c \<Rightarrow> c),
      matrices = (case ms of None \<Rightarrow> defaultMatrices | Some m \<Rightarrow> m)\<rparr>"

definition hover ::
  "HoverService \<Rightarrow> Node \<Rightarrow> Node \<Rightarrow> Callbacks \<Rightarrow> Room \<Rightarrow> Vector \<Rightarrow> string option
     \<Rightarrow> (string \<rightharpoonup> Memo) \<Rightarrow> js_error + hover_result" where
  "hover this drag hovered actions room mouse matrix_name cache =
     (let use = (case matrix_name of None \<Rightarrow> ''10x10'' | Some n \<Rightarrow> n)
      in case matrices this use of
           None \<Rightarrow> Inl TypeError
         | Some matrix \<Rightarrow>
             computeHover drag hovered actions room mouse matrix (callbacks this) use cache)"

text \<open>The module-level \<^verbatim>\<open>last = { '10x10': null, '10x10-no-inline': null }\<close>.\<close>

definition last_init :: "string \<rightharpoonup> Memo" where
  "last_init = Map.empty"

text \<open>The calls made, and the cache left, by a call that may have thrown.\<close>

definition calls_of :: "js_error + hover_result \<Rightarrow> call list" where
  "calls_of r = (case r of Inl e \<Rightarrow> [] | Inr res \<Rightarrow> calls res)"

definition last_of :: "(string \<rightharpoonup> Memo) \<Rightarrow> js_error + hover_result \<Rightarrow> (string \<rightharpoonup> Memo)" where
  "last_of cache r = (case r of Inl e \<Rightarrow> cache | Inr res \<Rightarrow> last_out res)"

subsection \<open>Example data\<close>

text \<open>Concrete nodes, rooms and tables at which the theorems below are instantiated.\<close>

definition ex_levels :: Levels where
  "ex_levels = \<lparr>lv_left = 3, lv_right = 3, lv_above = 3, lv_below = 3\<rparr>"

text \<open>A cell that is not inline and has no inline neighbour.\<close>

definition ex_cell :: Node where
  "ex_cell = Cell ''hovered'' ex_levels None None None"

definition ex_row :: Node where
  "ex_row = Row ''row'' ex_levels"

text \<open>A dragged cell whose plugin can be inlined; it is not inline itself.\<close>

definition ex_drag :: Node where
  "ex_drag =
     Cell ''dragged'' ex_levels None None
       (Some \<lparr>plugin = Some \<lparr>isInlineable = Some True\<rparr>\<rparr>)"

text \<open>The same dragged cell, floating on the right of its neighbour.\<close>

definition ex_drag_right :: Node where
  "ex_drag_right =
     Cell ''dragged'' ex_levels (Some SideRight) None
       (Some \<lparr>plugin = Some \<lparr>isInlineable = Some True\<rparr>\<rparr>)"

text \<open>A hovered cell whose inline neighbour is the dragged cell.\<close>

definition ex_cell_neighbour :: Node where
  "ex_cell_neighbour = Cell ''hovered'' ex_levels None (Some ''dragged'') None"

definition ex_room :: Room where
  "ex_room = \<lparr>width = 100, height = 100\<rparr>"

definition ex_actions :: Callbacks where
  "ex_actions = Callbacks 0"

definition ex_ctx :: Context where
  "ex_ctx =
     \<lparr>ctx_room = ex_room, ctx_mouse = \<lparr>vx = 15, vy = 15\<rparr>,
      ctx_position = \<lparr>row = 1, cell = 1\<rparr>,
      ctx_size = \<lparr>size_rows = 10, size_cells = 10\<rparr>,
      ctx_scale = \<lparr>vx = 10, vy = 10\<rparr>\<rparr>"

text \<open>A one-cell matrix whose code has no interpreter in the default table.\<close>

definition ex_matrix_unregistered :: Matrix where
  "ex_matrix_unregistered = [[999]]"

text \<open>The dragged cell again, floating on the left of its neighbour.\<close>

definition ex_drag_left :: Node where
  "ex_drag_left =
     Cell ''dragged'' ex_levels (Some SideLeft) None
       (Some \<lparr>plugin = Some \<lparr>isInlineable = Some True\<rparr>\<rparr>)"

text \<open>A service whose only matrix, named \<open>custom\<close>, is the one-cell matrix above.\<close>

definition ex_service_custom :: HoverService where
  "ex_service_custom =
     new_HoverService (Some (Map.empty(''custom'' \<mapsto> ex_matrix_unregistered))) None"

subsection \<open>The inline zones as the specification words them\<close>

text \<open>
  The specification describes the interpreters of \<open>IL\<close> and \<open>IR\<close> as follows: no
  action if the dragged or the hovered node is a row; otherwise a directional insert at
  level 2 if the hovered node is itself inline, or the dragged node's plugin is not
  inline-capable, or the hovered node has an inline neighbour different from the dragged
  node, or has the dragged node as inline neighbour but on the opposite side; otherwise
  the inline action. \<open>spec_inline\<close> follows these words, with the opposite side read
  against the side of the zone, to be compared with \<open>cb_IL\<close> and \<open>cb_IR\<close>.
\<close>

definition opposite :: "inline_side \<Rightarrow> inline_side" where
  "opposite s = (case s of SideLeft \<Rightarrow> SideRight | SideRight \<Rightarrow> SideLeft)"

definition spec_inline :: "inline_side \<Rightarrow> Node \<Rightarrow> Node \<Rightarrow> call list" where
  "spec_inline zone item hovered =
     (if isRow item \<or> isRow hovered then []
      else if inline hovered \<noteq> None
              \<or> \<not> isInlineable_of item
              \<or> (truthy (hasInlineNeighbour hovered)
                  \<and> hasInlineNeighbour hovered \<noteq> Some (node_id item))
              \<or> (truthy (hasInlineNeighbour hovered)
                  \<and> hasInlineNeighbour hovered = Some (node_id item)
                  \<and> inline item = Some (opposite zone))
        then (case zone of SideLeft \<Rightarrow> [LeftOf item hovered 2] | SideRight \<Rightarrow> [RightOf item hovered 2])
      else (case zone of SideLeft \<Rightarrow> [InlineLeft item hovered]
                       | SideRight \<Rightarrow> [InlineRight item hovered]))"

section \<open>Properties\<close>

subsection \<open>Array reads and the clamp\<close>

lemma js_index_Some:
  "0 \<le> i \<Longrightarrow> i < int (length xs) \<Longrightarrow> js_index xs i = Some (xs ! nat i)"
  by (simp add: js_index_def)

lemma clampHoverCell_row:
  "0 < rows \<Longrightarrow> 0 \<le> row (clampHoverCell hc rows cells) \<and> row (clampHoverCell hc rows cells) \<le> rows - 1"
  by (simp add: clampHoverCell_def Let_def)

lemma clampHoverCell_cell:
  "0 < cells \<Longrightarrow> 0 \<le> cell (clampHoverCell hc rows cells) \<and> cell (clampHoverCell hc rows cells) \<le> cells - 1"
  by (simp add: clampHoverCell_def Let_def)

text \<open>The two clamping assignments, as a formula.\<close>

lemma clampHoverCell_eq:
  assumes "0 < rows" and "0 < cells"
  shows "clampHoverCell hc rows cells
         = \<lparr>row = max 0 (min (rows - 1) (row hc)), cell = max 0 (min (cells - 1) (cell hc))\<rparr>"
  using assms by (cases hc) (simp add: clampHoverCell_def Let_def max_def min_def)

subsection \<open>The level loop\<close>

lemma computeLevel_loop_le: "computeLevel_loop levels position i steps current \<le> levels"
proof (induction levels position i steps current rule: computeLevel_loop.induct)
  case (1 levels position i steps current)
  show ?case
  proof (cases "int i \<le> levels")
    case True
    then show ?thesis
      using "1.IH" by (subst computeLevel_loop.simps) (simp add: Let_def)
  next
    case False
    then show ?thesis by (subst computeLevel_loop.simps) simp
  qed
qed

lemma computeLevel_loop_ge:
  "min (int i) levels \<le> computeLevel_loop levels position i steps current"
proof (induction levels position i steps current rule: computeLevel_loop.induct)
  case (1 levels position i steps current)
  show ?case
  proof (cases "int i \<le> levels")
    case True
    let ?steps = "steps @ [steps ! i + current / 2]"
    have "min (int (i + 1)) levels \<le> computeLevel_loop levels position (i + 1) ?steps (current / 2)"
      if "\<not> (position \<ge> ?steps ! i + real i * 2 \<and> position < ?steps ! (i + 1) + (real i + 1) * 2)"
      using "1.IH" [OF True refl refl that] .
    with True show ?thesis
      by (subst computeLevel_loop.simps) (auto simp add: Let_def)
  next
    case False
    then show ?thesis by (subst computeLevel_loop.simps) simp
  qed
qed

text \<open>
  Two runs of the loop on positions \<open>p1 \<le> p2\<close>, from the same counter and array,
  when \<open>p1\<close> is not left of the band the loop is about to test.
\<close>

lemma computeLevel_loop_mono:
  assumes "length steps = Suc i" and "steps ! i + real i * 2 \<le> p1" and "p1 \<le> p2"
  shows "computeLevel_loop levels p1 i steps current \<le> computeLevel_loop levels p2 i steps current"
  using assms
proof (induction levels p1 i steps current rule: computeLevel_loop.induct)
  case (1 levels p1 i steps current)
  show ?case
  proof (cases "int i \<le> levels")
    case False
    then show ?thesis
      by (simp add: computeLevel_loop.simps [of levels _ i])
  next
    case True
    let ?steps = "steps @ [steps ! i + current / 2]"
    have nth_i: "?steps ! i = steps ! i" and nth_Si: "?steps ! (i + 1) = steps ! i + current / 2"
      using "1.prems"(1) by (simp_all add: nth_append)
    let ?hi = "steps ! i + current / 2 + (real i + 1) * 2"
    show ?thesis
    proof (cases "p1 < ?hi")
      case lt: True
      have l: "computeLevel_loop levels p1 i steps current = int i"
        using True lt "1.prems"(2) nth_i nth_Si
        by (subst computeLevel_loop.simps) (simp add: Let_def)
      have "int i \<le> computeLevel_loop levels p2 i steps current"
      proof (cases "p2 < ?hi")
        case True
        with \<open>int i \<le> levels\<close> "1.prems" nth_i nth_Si show ?thesis
          by (subst computeLevel_loop.simps) (simp add: Let_def)
      next
        case False
        have "min (int (i + 1)) levels \<le> computeLevel_loop levels p2 (i + 1) ?steps (current / 2)"
          by (rule computeLevel_loop_ge)
        with False \<open>int i \<le> levels\<close> nth_i nth_Si show ?thesis
          by (subst computeLevel_loop.simps) (simp add: Let_def)
      qed
      with l show ?thesis by simp
    next
      case ge: False
      have c1: "\<not> (p1 \<ge> ?steps ! i + real i * 2 \<and> p1 < ?steps ! (i + 1) + (real i + 1) * 2)"
        using ge nth_Si by simp
      have ih: "computeLevel_loop levels p1 (i + 1) ?steps (current / 2)
                \<le> computeLevel_loop levels p2 (i + 1) ?steps (current / 2)"
      proof (rule "1.IH" [OF True refl refl c1])
        show "length ?steps = Suc (i + 1)" using "1.prems"(1) by simp
        show "?steps ! (i + 1) + real (i + 1) * 2 \<le> p1" using ge nth_Si by (simp add: algebra_simps)
        show "p1 \<le> p2" by (rule "1.prems"(3))
      qed
      have e1: "computeLevel_loop levels p1 i steps current
                = computeLevel_loop levels p1 (i + 1) ?steps (current / 2)"
        using True ge nth_i nth_Si by (subst computeLevel_loop.simps) (simp add: Let_def)
      have "\<not> p2 < ?hi" using ge "1.prems"(3) by simp
      then have e2: "computeLevel_loop levels p2 i steps current
                = computeLevel_loop levels p2 (i + 1) ?steps (current / 2)"
        using True nth_Si by (subst computeLevel_loop.simps) (simp add: Let_def)
      from ih e1 e2 show ?thesis by simp
    qed
  qed
qed

text \<open>The linear split of the dense regime, for a position inside the cell.\<close>

lemma round_dense_range:
  assumes "0 \<le> levels" "0 < s" "0 \<le> p" "p \<le> s"
  shows "0 \<le> round (p / (s / real_of_int levels)) \<and> round (p / (s / real_of_int levels)) \<le> levels"
proof -
  let ?q = "p / (s / real_of_int levels)"
  have q: "?q = p / s * real_of_int levels" by simp
  have ps: "0 \<le> p / s" "p / s \<le> 1" using assms by simp_all
  have lv: "0 \<le> real_of_int levels" using assms(1) by simp
  have a: "0 \<le> ?q" unfolding q using ps(1) lv by (rule mult_nonneg_nonneg)
  have "p / s * real_of_int levels \<le> 1 * real_of_int levels"
    using ps(2) lv by (rule mult_right_mono)
  then have b: "?q \<le> real_of_int levels" unfolding q by simp
  have "round (0::real) \<le> round ?q" using a by (rule round_mono)
  moreover have "round ?q \<le> round (real_of_int levels)" using b by (rule round_mono)
  ultimately show ?thesis by simp
qed

subsection \<open>Range of the level (claim C3)\<close>

text \<open>
  The dense regime has no clamp: a position beyond the cell gives a level beyond
  \<open>levels\<close>. With size 4 and one level, position 100 gives level 25.
\<close>

theorem computeLevel_dense_out_of_range:
  "(4::real) \<le> (real_of_int 1 + 1) * 2
   \<and> \<not> (0 \<le> computeLevel 4 1 100 \<and> computeLevel 4 1 100 \<le> 1)"
  by (simp add: computeLevel_def)

text \<open>
  Claim C3, as amended. For a non-negative integer \<open>levels\<close>,
  \<^verbatim>\<open>computeLevel({size, levels, position})\<close> lies in \<open>[0, levels]\<close> in the
  geometric regime (\<open>size > (levels+1)*2\<close>) for every position, and in the dense
  regime (\<open>size \<le> (levels+1)*2\<close>), where it is
  \<open>round (position / (size / levels))\<close>, whenever the size is positive and the
  position lies in \<open>[0, size]\<close>.
\<close>

theorem computeLevel_range:
  assumes "0 \<le> levels"
    and "(real_of_int levels + 1) * 2 < size_px
         \<or> (0 < size_px \<and> 0 \<le> position \<and> position \<le> size_px)"
  shows "0 \<le> computeLevel size_px levels position
         \<and> computeLevel size_px levels position \<le> levels
         \<and> (size_px \<le> (real_of_int levels + 1) * 2 \<longrightarrow>
              computeLevel size_px levels position
              = round (position / (size_px / real_of_int levels)))"
proof (cases "size_px \<le> (real_of_int levels + 1) * 2")
  case True
  with assms(2) have "0 < size_px" "0 \<le> position" "position \<le> size_px" by simp_all
  from round_dense_range [OF assms(1) this] True show ?thesis
    by (simp add: computeLevel_def)
next
  case False
  let ?spare = "size_px - (real_of_int levels + 1) * 2"
  have "min (int 0) levels \<le> computeLevel_loop levels position 0 [0] ?spare"
    by (rule computeLevel_loop_ge)
  moreover have "computeLevel_loop levels position 0 [0] ?spare \<le> levels"
    by (rule computeLevel_loop_le)
  ultimately show ?thesis using False assms(1)
    by (simp add: computeLevel_def Let_def)
qed

text \<open>
  The theorem at size 10, three levels, position 1 (geometric regime, level 0) and at
  size 4, one level, position 3 (dense regime).
\<close>

theorem computeLevel_range_witness:
  "(0::int) \<le> 3 \<and> (real_of_int 3 + 1) * 2 < (10::real)
   \<and> 0 \<le> computeLevel 10 3 1 \<and> computeLevel 10 3 1 \<le> 3
   \<and> computeLevel 10 3 1 = 0
   \<and> (0::real) < 4 \<and> (3::real) \<le> 4
   \<and> 0 \<le> computeLevel 4 1 3 \<and> computeLevel 4 1 3 \<le> 1
   \<and> computeLevel 4 1 3 = round (3 / (4 / real_of_int 1))"
proof -
  have a: "(0::int) \<le> 3" and b: "(0::int) \<le> 1" by simp_all
  have c: "(real_of_int 3 + 1) * 2 < (10::real)
           \<or> ((0::real) < 10 \<and> (0::real) \<le> 1 \<and> (1::real) \<le> 10)"
    by simp
  have d: "(real_of_int 1 + 1) * 2 < (4::real)
           \<or> ((0::real) < 4 \<and> (0::real) \<le> 3 \<and> (3::real) \<le> 4)"
    by simp
  have e: "computeLevel 10 3 1 = 0"
    by (simp add: computeLevel_def computeLevel_loop.simps)
  show ?thesis
    using computeLevel_range [OF a c] computeLevel_range [OF b d] e by simp
qed

subsection \<open>Monotonicity of the level (claim C4)\<close>

text \<open>
  A negative position matches no band, so the loop falls through to \<open>levels\<close>, the
  deepest level, while position 0 is in the first band.
\<close>

theorem computeLevel_negative_position:
  "(real_of_int 1 + 1) * 2 < (10::real) \<and> (-1::real) \<le> 0
   \<and> \<not> (computeLevel 10 1 (-1) \<le> computeLevel 10 1 0)"
  by (simp add: computeLevel_def computeLevel_loop.simps)

text \<open>
  Claim C4, as amended. In the geometric regime (\<open>size > (levels+1)*2\<close>), for fixed
  size and levels, \<^verbatim>\<open>computeLevel\<close> is monotonically non-decreasing on the
  non-negative positions: for \<open>0 \<le> p1 \<le> p2\<close> the level at \<open>p1\<close> is at most the
  level at \<open>p2\<close>.
\<close>

theorem computeLevel_mono:
  assumes "(real_of_int levels + 1) * 2 < size_px" and "0 \<le> p1" and "p1 \<le> p2"
  shows "computeLevel size_px levels p1 \<le> computeLevel size_px levels p2"
proof -
  let ?spare = "size_px - (real_of_int levels + 1) * 2"
  have "computeLevel_loop levels p1 0 [0] ?spare \<le> computeLevel_loop levels p2 0 [0] ?spare"
    by (rule computeLevel_loop_mono) (use assms in simp_all)
  with assms(1) show ?thesis by (simp add: computeLevel_def Let_def)
qed

theorem computeLevel_mono_witness:
  "(real_of_int 3 + 1) * 2 < (100::real) \<and> (0::real) \<le> 50 \<and> (50::real) \<le> 90
   \<and> computeLevel 100 3 50 \<le> computeLevel 100 3 90
   \<and> computeLevel 100 3 50 = 1 \<and> computeLevel 100 3 90 = 3"
proof -
  have a: "(real_of_int 3 + 1) * 2 < (100::real)"
    and b: "(0::real) \<le> 50" and c: "(50::real) \<le> 90"
    by simp_all
  have "computeLevel 100 3 50 = 1" "computeLevel 100 3 90 = 3"
    by (simp_all add: computeLevel_def computeLevel_loop.simps)
  with computeLevel_mono [OF a b c] show ?thesis by simp
qed

subsection \<open>A hovered row in the ancestor zone above (claim C7)\<close>

text \<open>
  Claim C7. If the hovered node is a row, the interpreter registered for \<open>AA\<close>
  dispatches \<^verbatim>\<open>above\<close> with the level \<^verbatim>\<open>hover.levels.above\<close>, whatever the
  context (room, mouse, scale, matrix index): \<^verbatim>\<open>computeVertical\<close> returns its
  \<open>level\<close> argument for a row, with or without inversion.
\<close>

theorem AA_row_max_level:
  assumes "isRow hovered"
  shows "defaultCallbacks c_AA = Some cb_AA
         \<and> cb_AA item hovered actions ctx
           = [Above item hovered (lv_above (node_levels hovered))]
         \<and> computeVertical level mouse hovered position scale inv_flag = level"
  using assms
  by (simp add: defaultCallbacks_def classes_defs cb_AA_def computeVertical_def Let_def)

theorem AA_row_max_level_witness:
  "isRow ex_row
   \<and> cb_AA ex_drag ex_row ex_actions ex_ctx = [Above ex_drag ex_row 3]
   \<and> computeVertical 3 \<lparr>vx = 15, vy = 1\<rparr> ex_row \<lparr>row = 0, cell = 1\<rparr>
       \<lparr>vx = 10, vy = 10\<rparr> True = 3"
proof -
  have r: "isRow ex_row" by (simp add: ex_row_def)
  have l: "lv_above (node_levels ex_row) = 3" by (simp add: ex_row_def ex_levels_def)
  show ?thesis
    using r l AA_row_max_level [OF r, of ex_drag ex_actions ex_ctx 3
        "\<lparr>vx = 15, vy = 1\<rparr>" "\<lparr>row = 0, cell = 1\<rparr>" "\<lparr>vx = 10, vy = 10\<rparr>" True]
    by simp
qed

subsection \<open>Scale and located cell\<close>

lemma getRoomScale_Inr:
  "matrix \<noteq> [] \<Longrightarrow>
   getRoomScale room matrix
   = Inr \<lparr>vx = width room / real_of_int (int (length (hd matrix))),
          vy = height room / real_of_int (int (length matrix))\<rparr>"
  by (cases matrix) (simp_all add: getRoomScale_def js_index_def Let_def)

lemma getRoomScale_InrD:
  assumes "getRoomScale room matrix = Inr scale"
  shows "matrix \<noteq> []"
    and "vx scale = width room / real_of_int (int (length (hd matrix)))"
    and "vy scale = height room / real_of_int (int (length matrix))"
proof -
  show ne: "matrix \<noteq> []"
    using assms by (cases matrix) (simp_all add: getRoomScale_def js_index_def)
  from getRoomScale_Inr [OF ne, of room] assms
  show "vx scale = width room / real_of_int (int (length (hd matrix)))"
    and "vy scale = height room / real_of_int (int (length matrix))"
    by auto
qed

lemma hoverContext_Inr:
  "matrix \<noteq> [] \<Longrightarrow>
   hoverContext room mouse matrix
   = Inr \<lparr>ctx_room = room, ctx_mouse = mouse,
          ctx_position =
            clampHoverCell
              (getMouseHoverCell mouse
                 \<lparr>vx = width room / real_of_int (int (length (hd matrix))),
                  vy = height room / real_of_int (int (length matrix))\<rparr>)
              (int (length matrix)) (int (length (hd matrix))),
          ctx_size = \<lparr>size_rows = int (length matrix), size_cells = int (length (hd matrix))\<rparr>,
          ctx_scale = \<lparr>vx = width room / real_of_int (int (length (hd matrix))),
                       vy = height room / real_of_int (int (length matrix))\<rparr>\<rparr>"
  by (cases matrix) (simp_all add: hoverContext_def getRoomScale_def js_index_def Let_def)

subsection \<open>The cell locator (claim C5)\<close>

text \<open>
  \<^verbatim>\<open>getMouseHoverCell\<close> does not clamp. In a room of 100 by 100 under the 10x10
  matrix the scale is 10 by 10, and the pointer at \<open>(-5, 250)\<close> is located in row 25,
  cell -1.
\<close>

theorem getMouseHoverCell_out_of_bounds:
  "getRoomScale ex_room matrix_10x10 = Inr \<lparr>vx = 10, vy = 10\<rparr>
   \<and> getMouseHoverCell \<lparr>vx = -5, vy = 250\<rparr> \<lparr>vx = 10, vy = 10\<rparr> = \<lparr>row = 25, cell = -1\<rparr>
   \<and> \<not> (0 \<le> row (getMouseHoverCell \<lparr>vx = -5, vy = 250\<rparr> \<lparr>vx = 10, vy = 10\<rparr>)
         \<and> row (getMouseHoverCell \<lparr>vx = -5, vy = 250\<rparr> \<lparr>vx = 10, vy = 10\<rparr>)
             \<le> int (length matrix_10x10) - 1
         \<and> 0 \<le> cell (getMouseHoverCell \<lparr>vx = -5, vy = 250\<rparr> \<lparr>vx = 10, vy = 10\<rparr>)
         \<and> cell (getMouseHoverCell \<lparr>vx = -5, vy = 250\<rparr> \<lparr>vx = 10, vy = 10\<rparr>)
             \<le> int (length (hd matrix_10x10)) - 1)"
  by (simp add: getRoomScale_def js_index_def ex_room_def matrix_10x10_def getMouseHoverCell_def Let_def)


text \<open>
  Claim C5, as amended. For every mouse position and positive scale, pointers outside
  the room included, \<^verbatim>\<open>getMouseHoverCell\<close> returns the floor of the quotient of
  mouse by scale on each axis, unclamped. The index that \<^verbatim>\<open>computeHover\<close> derives
  from it by its two clamping assignments, for a matrix with at least one row and one
  column, is \<open>row = max 0 (min (rowCount-1) row)\<close> and
  \<open>cell = max 0 (min (cellCount-1) cell)\<close>: its row lies in \<open>[0, rowCount-1]\<close> and
  its cell in \<open>[0, cellCount-1]\<close>.
\<close>

theorem getMouseHoverCell_then_clamp:
  assumes "0 < vx scale" and "0 < vy scale" and "0 < rows" and "0 < cells"
  shows "getMouseHoverCell mouse scale
           = \<lparr>row = \<lfloor>vy mouse / vy scale\<rfloor>, cell = \<lfloor>vx mouse / vx scale\<rfloor>\<rparr>
         \<and> clampHoverCell (getMouseHoverCell mouse scale) rows cells
           = \<lparr>row = max 0 (min (rows - 1) (row (getMouseHoverCell mouse scale))),
              cell = max 0 (min (cells - 1) (cell (getMouseHoverCell mouse scale)))\<rparr>
         \<and> 0 \<le> row (clampHoverCell (getMouseHoverCell mouse scale) rows cells)
         \<and> row (clampHoverCell (getMouseHoverCell mouse scale) rows cells) \<le> rows - 1
         \<and> 0 \<le> cell (clampHoverCell (getMouseHoverCell mouse scale) rows cells)
         \<and> cell (clampHoverCell (getMouseHoverCell mouse scale) rows cells) \<le> cells - 1"
  using clampHoverCell_eq [OF assms(3,4), of "getMouseHoverCell mouse scale"]
    clampHoverCell_row [OF assms(3), of "getMouseHoverCell mouse scale" cells]
    clampHoverCell_cell [OF assms(4), of "getMouseHoverCell mouse scale" rows]
  by (simp add: getMouseHoverCell_def)

text \<open>
  At scale 10 by 10 with ten rows and ten cells: the pointer \<open>(-5, 250)\<close> is located
  at \<open>(25, -1)\<close> and clamped to \<open>(9, 0)\<close>; the pointer \<open>(25, 37)\<close> is located at
  \<open>(3, 2)\<close> and left there.
\<close>

theorem getMouseHoverCell_then_clamp_witness:
  "(0::real) < vx \<lparr>vx = 10, vy = 10\<rparr> \<and> (0::real) < vy \<lparr>vx = 10, vy = 10\<rparr>
   \<and> (0::int) < 10
   \<and> getMouseHoverCell \<lparr>vx = -5, vy = 250\<rparr> \<lparr>vx = 10, vy = 10\<rparr> = \<lparr>row = 25, cell = -1\<rparr>
   \<and> clampHoverCell (getMouseHoverCell \<lparr>vx = -5, vy = 250\<rparr> \<lparr>vx = 10, vy = 10\<rparr>) 10 10
       = \<lparr>row = 9, cell = 0\<rparr>
   \<and> getMouseHoverCell \<lparr>vx = 25, vy = 37\<rparr> \<lparr>vx = 10, vy = 10\<rparr> = \<lparr>row = 3, cell = 2\<rparr>
   \<and> clampHoverCell (getMouseHoverCell \<lparr>vx = 25, vy = 37\<rparr> \<lparr>vx = 10, vy = 10\<rparr>) 10 10
       = \<lparr>row = 3, cell = 2\<rparr>"
proof -
  have sx: "(0::real) < vx \<lparr>vx = 10, vy = 10\<rparr>" and sy: "(0::real) < vy \<lparr>vx = 10, vy = 10\<rparr>"
    and n: "(0::int) < 10"
    by simp_all
  show ?thesis
    using sx sy n
      getMouseHoverCell_then_clamp [OF sx sy n n, of "\<lparr>vx = -5, vy = 250\<rparr>"]
      getMouseHoverCell_then_clamp [OF sx sy n n, of "\<lparr>vx = 25, vy = 37\<rparr>"]
    by (simp add: clampHoverCell_def Let_def)
qed

subsection \<open>The matrix lookup of computeHover (claim C10)\<close>

text \<open>
  Claim C10. For every mouse position and every non-empty rectangular matrix (in a room
  of positive width and height), \<^verbatim>\<open>computeHover\<close> clamps the located row into
  \<open>[0, rows-1]\<close> and the located cell into \<open>[0, cells-1]\<close> before it reads
  \<^verbatim>\<open>matrix[row][cell]\<close>: both reads find an element, and no \<^verbatim>\<open>TypeError\<close> is
  thrown. The position that is clamped is the bare pair of floors that
  \<^verbatim>\<open>getMouseHoverCell\<close> returns, which may be negative or beyond the matrix.
\<close>

theorem computeHover_lookup_in_bounds:
  assumes "matrix \<noteq> []" and "hd matrix \<noteq> []"
    and "list_all (\<lambda>r. length r = length (hd matrix)) matrix"
    and "0 < width room" and "0 < height room"
  shows "\<exists>ctx r code.
           hoverContext room mouse matrix = Inr ctx
         \<and> ctx_position ctx
             = clampHoverCell
                 \<lparr>row = \<lfloor>vy mouse / vy (ctx_scale ctx)\<rfloor>, cell = \<lfloor>vx mouse / vx (ctx_scale ctx)\<rfloor>\<rparr>
                 (int (length matrix)) (int (length (hd matrix)))
         \<and> 0 \<le> row (ctx_position ctx) \<and> row (ctx_position ctx) \<le> int (length matrix) - 1
         \<and> 0 \<le> cell (ctx_position ctx) \<and> cell (ctx_position ctx) \<le> int (length (hd matrix)) - 1
         \<and> js_index matrix (row (ctx_position ctx)) = Some r
         \<and> js_index r (cell (ctx_position ctx)) = Some code
         \<and> zoneCallback cbs matrix (ctx_position ctx) = Inr (cbs code)
         \<and> computeHover drag hovered actions room mouse matrix cbs m cache \<noteq> Inl TypeError"
proof -
  define scale where
    "scale = \<lparr>vx = width room / real_of_int (int (length (hd matrix))),
               vy = height room / real_of_int (int (length matrix))\<rparr>"
  define pos where
    "pos = clampHoverCell (getMouseHoverCell mouse scale)
             (int (length matrix)) (int (length (hd matrix)))"
  define ctx where
    "ctx = \<lparr>ctx_room = room, ctx_mouse = mouse, ctx_position = pos,
             ctx_size = \<lparr>size_rows = int (length matrix),
                          size_cells = int (length (hd matrix))\<rparr>,
             ctx_scale = scale\<rparr>"
  define r where "r = matrix ! nat (row pos)"
  define code where "code = r ! nat (cell pos)"
  have ctx: "hoverContext room mouse matrix = Inr ctx"
    unfolding ctx_def pos_def scale_def by (rule hoverContext_Inr [OF assms(1)])
  have sel: "ctx_position ctx = pos" "ctx_scale ctx = scale" by (simp_all add: ctx_def)
  have rows: "0 < int (length matrix)" using assms(1) by simp
  have cells: "0 < int (length (hd matrix))" using assms(2) by simp
  have rb: "0 \<le> row pos \<and> row pos \<le> int (length matrix) - 1"
    unfolding pos_def by (rule clampHoverCell_row [OF rows])
  have cb: "0 \<le> cell pos \<and> cell pos \<le> int (length (hd matrix)) - 1"
    unfolding pos_def by (rule clampHoverCell_cell [OF cells])
  have r: "js_index matrix (row pos) = Some r"
    unfolding r_def using rb by (intro js_index_Some) simp_all
  have "nat (row pos) < length matrix" using rb by (simp add: nat_less_iff)
  then have "r \<in> set matrix" unfolding r_def by (rule nth_mem)
  with assms(3) have len: "length r = length (hd matrix)"
    by (simp add: list_all_iff)
  have code: "js_index r (cell pos) = Some code"
    unfolding code_def using cb len by (intro js_index_Some) simp_all
  have zc: "zoneCallback cbs matrix pos = Inr (cbs code)"
    by (simp add: zoneCallback_def r code)
  have ne: "computeHover drag hovered actions room mouse matrix cbs m cache \<noteq> Inl TypeError"
    by (simp add: computeHover_def ctx sel zc Let_def split: option.split)
  have unclamped: "pos = clampHoverCell
                 \<lparr>row = \<lfloor>vy mouse / vy scale\<rfloor>, cell = \<lfloor>vx mouse / vx scale\<rfloor>\<rparr>
                 (int (length matrix)) (int (length (hd matrix)))"
    by (simp add: pos_def getMouseHoverCell_def)
  show ?thesis
    apply (rule exI [of _ ctx], rule exI [of _ r], rule exI [of _ code])
    unfolding sel
    using ctx rb cb r code zc ne unclamped by blast
qed


theorem computeHover_lookup_in_bounds_witness:
  "matrix_10x10 \<noteq> [] \<and> hd matrix_10x10 \<noteq> []
   \<and> list_all (\<lambda>r. length r = length (hd matrix_10x10)) matrix_10x10
   \<and> 0 < width ex_room \<and> 0 < height ex_room
   \<and> getMouseHoverCell \<lparr>vx = -5, vy = 250\<rparr> \<lparr>vx = 10, vy = 10\<rparr> = \<lparr>row = 25, cell = -1\<rparr>
   \<and> (\<exists>ctx r code.
         hoverContext ex_room \<lparr>vx = -5, vy = 250\<rparr> matrix_10x10 = Inr ctx
       \<and> ctx_position ctx = \<lparr>row = 9, cell = 0\<rparr>
       \<and> js_index matrix_10x10 9 = Some r
       \<and> js_index r 0 = Some code
       \<and> code = c_C4
       \<and> computeHover ex_drag ex_cell ex_actions ex_room \<lparr>vx = -5, vy = 250\<rparr> matrix_10x10
            defaultCallbacks ''10x10'' last_init \<noteq> Inl TypeError)"
proof -
  have a: "matrix_10x10 \<noteq> []" and b: "hd matrix_10x10 \<noteq> []"
    and c: "list_all (\<lambda>r. length r = length (hd matrix_10x10)) matrix_10x10"
    by (simp_all add: matrix_10x10_def)
  have w: "0 < width ex_room" and h: "0 < height ex_room" by (simp_all add: ex_room_def)
  have g: "getMouseHoverCell \<lparr>vx = -5, vy = 250\<rparr> \<lparr>vx = 10, vy = 10\<rparr> = \<lparr>row = 25, cell = -1\<rparr>"
    by (simp add: getMouseHoverCell_def)
  from computeHover_lookup_in_bounds [OF a b c w h, of "\<lparr>vx = -5, vy = 250\<rparr>" defaultCallbacks
      ex_drag ex_cell ex_actions "''10x10''" last_init]
  obtain ctx r code where
    ctx: "hoverContext ex_room \<lparr>vx = -5, vy = 250\<rparr> matrix_10x10 = Inr ctx"
    and r: "js_index matrix_10x10 (row (ctx_position ctx)) = Some r"
    and code: "js_index r (cell (ctx_position ctx)) = Some code"
    and ne: "computeHover ex_drag ex_cell ex_actions ex_room \<lparr>vx = -5, vy = 250\<rparr> matrix_10x10
            defaultCallbacks ''10x10'' last_init \<noteq> Inl TypeError"
    by blast
  have pos: "ctx_position ctx = \<lparr>row = 9, cell = 0\<rparr>"
    using ctx
    by (simp add: hoverContext_def getRoomScale_def js_index_def ex_room_def matrix_10x10_def
        getMouseHoverCell_def clampHoverCell_def Let_def) auto
  have "code = c_C4"
    using r code unfolding pos by (simp add: js_index_def matrix_10x10_def) auto
  with a b c w h g ctx r code ne pos show ?thesis by auto
qed

subsection \<open>The engine: one call at most (claim C1)\<close>

lemmas cb_defs =
  cb_NO_def cb_C1_def cb_C2_def cb_C3_def cb_C4_def cb_AH_def cb_BH_def cb_LH_def cb_RH_def
  cb_AA_def cb_BA_def cb_LA_def cb_RA_def cb_IL_def cb_IR_def

lemmas engine_defs =
  hover_def new_HoverService_def defaultMatrices_def computeHover_def hoverContext_def
  getRoomScale_def js_index_def getMouseHoverCell_def clampHoverCell_def zoneCallback_def
  defaultCallbacks_def classes_defs memoKey_def deepEquals_def diagnostic_def last_init_def
  calls_of_def last_of_def relativeMousePosition_def getDropLevel_def Let_def

text \<open>\<^verbatim>\<open>computeHover\<close> by its four ways of returning.\<close>

lemma computeHover_cases:
  "computeHover drag hovered actions room mouse matrix cbs m cache =
     (case hoverContext room mouse matrix of
        Inl e \<Rightarrow> Inl e
      | Inr ctx \<Rightarrow>
          (case zoneCallback cbs matrix (ctx_position ctx) of
             Inl e \<Rightarrow> Inl e
           | Inr None \<Rightarrow>
               Inr \<lparr>last_out = cache, calls = [], logged = [diagnostic matrix ctx]\<rparr>
           | Inr (Some cb) \<Rightarrow>
               (if cache m = Some (memoKey drag hovered actions ctx)
                then Inr \<lparr>last_out = cache, calls = [], logged = []\<rparr>
                else Inr \<lparr>last_out = cache(m \<mapsto> memoKey drag hovered actions ctx),
                          calls = cb drag hovered actions ctx, logged = []\<rparr>)))"
  by (auto simp add: computeHover_def deepEquals_def Let_def split: sum.splits option.splits)

lemma zoneCallback_SomeD:
  "zoneCallback cbs matrix pos = Inr (Some cb) \<Longrightarrow> \<exists>k. cbs k = Some cb"
  by (auto simp add: zoneCallback_def split: option.splits)

lemma defaultCallbacks_at_most_one:
  "defaultCallbacks k = Some cb \<Longrightarrow> length (cb item hovered actions ctx) \<le> 1"
  by (auto simp add: defaultCallbacks_def cb_defs Let_def split: if_splits)

lemma computeHover_default_at_most_one:
  "length (calls_of (computeHover drag hovered actions room mouse matrix defaultCallbacks m cache)) \<le> 1"
  by (auto simp add: computeHover_cases calls_of_def split: sum.splits option.splits
      dest!: zoneCallback_SomeD defaultCallbacks_at_most_one)

text \<open>
  Claim C1. With the default interpreter table, an invocation of
  \<^verbatim>\<open>HoverService.hover\<close> (any dragged node, hovered node, action-dispatch object,
  room, mouse position, matrix name and cache) makes at most one call on the
  action-dispatch object. With any table it makes none on a classification miss (the
  code at the located cell has no interpreter) and none on a memoization hit (the cache
  slot of the matrix name holds the key of this invocation).
\<close>

theorem hover_at_most_one_call:
  "(callbacks this = defaultCallbacks \<longrightarrow>
      length (calls_of (hover this drag hovered actions room mouse matrix_name cache)) \<le> 1)
   \<and> (\<forall>matrix ctx.
         matrices this (case matrix_name of None \<Rightarrow> ''10x10'' | Some n \<Rightarrow> n) = Some matrix
         \<and> hoverContext room mouse matrix = Inr ctx
         \<and> (zoneCallback (callbacks this) matrix (ctx_position ctx) = Inr None
            \<or> cache (case matrix_name of None \<Rightarrow> ''10x10'' | Some n \<Rightarrow> n)
                = Some (memoKey drag hovered actions ctx))
         \<longrightarrow> calls_of (hover this drag hovered actions room mouse matrix_name cache) = [])"
proof (intro conjI impI allI)
  assume "callbacks this = defaultCallbacks"
  then show "length (calls_of (hover this drag hovered actions room mouse matrix_name cache)) \<le> 1"
    using computeHover_default_at_most_one
    by (simp add: hover_def Let_def calls_of_def [of "Inl TypeError"] split: option.split)
next
  fix matrix ctx
  assume "matrices this (case matrix_name of None \<Rightarrow> ''10x10'' | Some n \<Rightarrow> n) = Some matrix
         \<and> hoverContext room mouse matrix = Inr ctx
         \<and> (zoneCallback (callbacks this) matrix (ctx_position ctx) = Inr None
            \<or> cache (case matrix_name of None \<Rightarrow> ''10x10'' | Some n \<Rightarrow> n)
                = Some (memoKey drag hovered actions ctx))"
  then show "calls_of (hover this drag hovered actions room mouse matrix_name cache) = []"
    by (auto simp add: hover_def Let_def computeHover_cases calls_of_def
        split: sum.splits option.splits)
qed

text \<open>
  The theorem at the default service in the inline-left zone of the 10x10 matrix: one
  call on an empty cache, none when the cache holds the key, and none for the service
  whose matrix holds an unregistered code.
\<close>

theorem hover_at_most_one_call_witness:
  "callbacks (new_HoverService None None) = defaultCallbacks
   \<and> length (calls_of (hover (new_HoverService None None) ex_drag ex_cell ex_actions ex_room
        \<lparr>vx = 15, vy = 15\<rparr> None last_init)) \<le> 1
   \<and> calls_of (hover (new_HoverService None None) ex_drag ex_cell ex_actions ex_room
        \<lparr>vx = 15, vy = 15\<rparr> None last_init) = [InlineLeft ex_drag ex_cell]
   \<and> hoverContext ex_room \<lparr>vx = 15, vy = 15\<rparr> matrix_10x10 = Inr ex_ctx
   \<and> calls_of (hover (new_HoverService None None) ex_drag ex_cell ex_actions ex_room
        \<lparr>vx = 15, vy = 15\<rparr> None
        (Map.empty(''10x10'' \<mapsto> memoKey ex_drag ex_cell ex_actions ex_ctx))) = []
   \<and> zoneCallback (callbacks ex_service_custom) ex_matrix_unregistered \<lparr>row = 0, cell = 0\<rparr>
       = Inr None
   \<and> calls_of (hover ex_service_custom ex_drag ex_cell ex_actions ex_room
        \<lparr>vx = 15, vy = 15\<rparr> (Some ''custom'') last_init) = []"
proof -
  let ?S = "new_HoverService None None"
  let ?mouse = "\<lparr>vx = 15, vy = 15\<rparr> :: Vector"
  let ?hit = "Map.empty(''10x10'' \<mapsto> memoKey ex_drag ex_cell ex_actions ex_ctx)"
  have d: "callbacks ?S = defaultCallbacks" by (simp add: new_HoverService_def)
  have m: "matrices ?S (case None of None \<Rightarrow> ''10x10'' | Some n \<Rightarrow> n) = Some matrix_10x10"
    by (simp add: new_HoverService_def defaultMatrices_def)
  have c: "hoverContext ex_room ?mouse matrix_10x10 = Inr ex_ctx"
    by (simp add: hoverContext_def getRoomScale_def js_index_def getMouseHoverCell_def
        clampHoverCell_def matrix_10x10_def ex_room_def ex_ctx_def Let_def)
  have k: "?hit (case None of None \<Rightarrow> ''10x10'' | Some n \<Rightarrow> n)
           = Some (memoKey ex_drag ex_cell ex_actions ex_ctx)"
    by simp
  have le: "length (calls_of (hover ?S ex_drag ex_cell ex_actions ex_room ?mouse None last_init)) \<le> 1"
    using hover_at_most_one_call [of ?S ex_drag ex_cell ex_actions ex_room ?mouse None last_init] d
    by blast
  have v: "calls_of (hover ?S ex_drag ex_cell ex_actions ex_room ?mouse None last_init)
           = [InlineLeft ex_drag ex_cell]"
    by (simp add: engine_defs matrix_10x10_def ex_room_def cb_IL_def ex_cell_def ex_drag_def
        isInlineable_of_def truthy_def)
  have hit: "calls_of (hover ?S ex_drag ex_cell ex_actions ex_room ?mouse None ?hit) = []"
    using hover_at_most_one_call [of ?S ex_drag ex_cell ex_actions ex_room ?mouse None ?hit] m c k
    by blast
  have cm: "matrices ex_service_custom (case Some ''custom'' of None \<Rightarrow> ''10x10'' | Some n \<Rightarrow> n)
            = Some ex_matrix_unregistered"
    by (simp add: ex_service_custom_def new_HoverService_def)
  have cc: "hoverContext ex_room ?mouse ex_matrix_unregistered
            = Inr \<lparr>ctx_room = ex_room, ctx_mouse = ?mouse, ctx_position = \<lparr>row = 0, cell = 0\<rparr>,
                   ctx_size = \<lparr>size_rows = 1, size_cells = 1\<rparr>,
                   ctx_scale = \<lparr>vx = 100, vy = 100\<rparr>\<rparr>"
    by (simp add: hoverContext_def getRoomScale_def js_index_def getMouseHoverCell_def
        clampHoverCell_def ex_matrix_unregistered_def ex_room_def Let_def)
  have z: "zoneCallback (callbacks ex_service_custom) ex_matrix_unregistered \<lparr>row = 0, cell = 0\<rparr>
           = Inr None"
    by (simp add: zoneCallback_def js_index_def ex_matrix_unregistered_def ex_service_custom_def
        new_HoverService_def defaultCallbacks_def classes_defs)
  have miss: "calls_of (hover ex_service_custom ex_drag ex_cell ex_actions ex_room ?mouse
                (Some ''custom'') last_init) = []"
    using hover_at_most_one_call [of ex_service_custom ex_drag ex_cell ex_actions ex_room ?mouse
        "Some ''custom''" last_init, THEN conjunct2, rule_format, of ex_matrix_unregistered] cm cc z
    by simp
  from d le v c hit z miss show ?thesis by (intro conjI)
qed

subsection \<open>Two consecutive identical invocations (claim C2)\<close>

text \<open>How many calls an interpreter of the default table makes.\<close>

lemma length_if_chain:
  "length (if r then [] else if p then [b1] else if q then [b2] else if s then [b3] else [c])
   = (if r then 0 else 1)"
  by simp

lemma cb_IL_length:
  "length (cb_IL item hovered actions ctx) = (if isRow item \<or> isRow hovered then 0 else 1)"
  unfolding cb_IL_def by (rule length_if_chain)

lemma cb_IR_length:
  "length (cb_IR item hovered actions ctx) = (if isRow item \<or> isRow hovered then 0 else 1)"
  unfolding cb_IR_def by (rule length_if_chain)

lemma defaultCallbacks_length_one:
  assumes "defaultCallbacks code = Some cb"
  shows "length (cb item hovered actions ctx) = 1
         \<longleftrightarrow> \<not> ((code = c_IL \<or> code = c_IR) \<and> (isRow item \<or> isRow hovered))"
  using assms
  by (auto simp add: defaultCallbacks_def classes_defs cb_NO_def cb_C1_def cb_C2_def cb_C3_def
      cb_C4_def cb_AH_def cb_BH_def cb_LH_def cb_RH_def cb_AA_def cb_BA_def cb_LA_def cb_RA_def
      cb_IL_length cb_IR_length Let_def split: if_splits)

text \<open>The memo key holds the identities of the two nodes, not the nodes.\<close>

lemma memoKey_ids:
  "node_id drag' = node_id drag \<Longrightarrow> node_id hovered' = node_id hovered \<Longrightarrow>
   memoKey drag' hovered' actions ctx = memoKey drag hovered actions ctx"
  by (simp add: memoKey_def)

lemma computeHover_twice_ids:
  assumes "node_id drag' = node_id drag" and "node_id hovered' = node_id hovered"
  shows "calls_of (computeHover drag' hovered' actions room mouse matrix cbs m
            (last_of cache (computeHover drag hovered actions room mouse matrix cbs m cache))) = []
         \<and> last_of (last_of cache (computeHover drag hovered actions room mouse matrix cbs m cache))
             (computeHover drag' hovered' actions room mouse matrix cbs m
               (last_of cache (computeHover drag hovered actions room mouse matrix cbs m cache)))
           = last_of cache (computeHover drag hovered actions room mouse matrix cbs m cache)"
  by (auto simp add: computeHover_cases memoKey_ids [OF assms] calls_of_def last_of_def
      split: sum.splits option.splits)

text \<open>A classification hit on a slot that does not hold the key.\<close>

lemma computeHover_hit:
  assumes "hoverContext room mouse matrix = Inr ctx"
    and "zoneCallback cbs matrix (ctx_position ctx) = Inr (Some cb)"
    and "cache m \<noteq> Some (memoKey drag hovered actions ctx)"
  shows "computeHover drag hovered actions room mouse matrix cbs m cache
         = Inr \<lparr>last_out = cache(m \<mapsto> memoKey drag hovered actions ctx),
                calls = cb drag hovered actions ctx, logged = []\<rparr>"
  using assms by (simp add: computeHover_cases)

lemma zoneCallback_Some_iff:
  "zoneCallback cbs matrix pos = Inr (Some cb)
   \<longleftrightarrow> (\<exists>r code. js_index matrix (row pos) = Some r \<and> js_index r (cell pos) = Some code
                 \<and> cbs code = Some cb)"
  by (auto simp add: zoneCallback_def split: option.splits)

lemma computeHover_default_one_iff:
  "length (calls_of (computeHover drag hovered actions room mouse matrix defaultCallbacks m cache)) = 1
   \<longleftrightarrow> (\<exists>ctx r code.
          hoverContext room mouse matrix = Inr ctx
        \<and> js_index matrix (row (ctx_position ctx)) = Some r
        \<and> js_index r (cell (ctx_position ctx)) = Some code
        \<and> defaultCallbacks code \<noteq> None
        \<and> cache m \<noteq> Some (memoKey drag hovered actions ctx)
        \<and> \<not> ((code = c_IL \<or> code = c_IR) \<and> (isRow drag \<or> isRow hovered)))"
  (is "?lhs \<longleftrightarrow> ?rhs")
proof (cases "hoverContext room mouse matrix")
  case (Inl e)
  then show ?thesis by (simp add: computeHover_cases calls_of_def)
next
  case (Inr ctx)
  show ?thesis
  proof (cases "zoneCallback defaultCallbacks matrix (ctx_position ctx)")
    case zl: (Inl e)
    then have "js_index matrix (row (ctx_position ctx)) = None"
      by (auto simp add: zoneCallback_def split: option.splits)
    with Inr zl show ?thesis by (simp add: computeHover_cases calls_of_def)
  next
    case zr: (Inr cbo)
    show ?thesis
    proof (cases cbo)
      case None
      have no: "\<not> (\<exists>r code. js_index matrix (row (ctx_position ctx)) = Some r
                  \<and> js_index r (cell (ctx_position ctx)) = Some code
                  \<and> defaultCallbacks code \<noteq> None)"
        using zr None by (auto simp add: zoneCallback_def split: option.splits)
      have "\<not> ?rhs" using no Inr by auto
      moreover have "\<not> ?lhs" using Inr zr None by (simp add: computeHover_cases calls_of_def)
      ultimately show ?thesis by blast
    next
      case (Some cb)
      with zr obtain r code where r: "js_index matrix (row (ctx_position ctx)) = Some r"
        and code: "js_index r (cell (ctx_position ctx)) = Some code"
        and cb: "defaultCallbacks code = Some cb"
        by (auto simp add: zoneCallback_Some_iff)
      show ?thesis
      proof (cases "cache m = Some (memoKey drag hovered actions ctx)")
        case True
        have "\<not> ?rhs" using Inr True by auto
        moreover have "\<not> ?lhs"
          using Inr zr Some True by (simp add: computeHover_cases calls_of_def)
        ultimately show ?thesis by blast
      next
        case False
        have z: "zoneCallback defaultCallbacks matrix (ctx_position ctx) = Inr (Some cb)"
          using zr Some by simp
        have l: "?lhs \<longleftrightarrow> length (cb drag hovered actions ctx) = 1"
          by (simp add: computeHover_hit [where cache = cache and m = m, OF Inr z False] calls_of_def)
        have "?rhs \<longleftrightarrow> \<not> ((code = c_IL \<or> code = c_IR) \<and> (isRow drag \<or> isRow hovered))"
          using Inr r code cb False by auto
        with l defaultCallbacks_length_one [OF cb, of drag hovered actions ctx]
        show ?thesis by blast
      qed
    qed
  qed
qed

text \<open>
  Two identical invocations need not dispatch at all. Over a hovered row in the
  inline-left zone of the 10x10 matrix the interpreter returns without a call: the
  first invocation stores its key and dispatches nothing, the second is suppressed.
\<close>

theorem hover_twice_no_dispatch:
  "calls_of (hover (new_HoverService None None) ex_drag ex_row ex_actions ex_room
       \<lparr>vx = 15, vy = 15\<rparr> None last_init) = []
   \<and> calls_of (hover (new_HoverService None None) ex_drag ex_row ex_actions ex_room
       \<lparr>vx = 15, vy = 15\<rparr> None
       (last_of last_init (hover (new_HoverService None None) ex_drag ex_row ex_actions ex_room
          \<lparr>vx = 15, vy = 15\<rparr> None last_init))) = []
   \<and> length (calls_of (hover (new_HoverService None None) ex_drag ex_row ex_actions ex_room
       \<lparr>vx = 15, vy = 15\<rparr> None last_init)
      @ calls_of (hover (new_HoverService None None) ex_drag ex_row ex_actions ex_room
       \<lparr>vx = 15, vy = 15\<rparr> None
       (last_of last_init (hover (new_HoverService None None) ex_drag ex_row ex_actions ex_room
          \<lparr>vx = 15, vy = 15\<rparr> None last_init)))) \<noteq> 1"
proof -
  have first: "hover (new_HoverService None None) ex_drag ex_row ex_actions ex_room
       \<lparr>vx = 15, vy = 15\<rparr> None last_init
     = Inr \<lparr>last_out = Map.empty(''10x10'' \<mapsto> memoKey ex_drag ex_row ex_actions ex_ctx),
            calls = [], logged = []\<rparr>"
    by (simp add: hover_def new_HoverService_def defaultMatrices_def computeHover_def
        hoverContext_def getRoomScale_def js_index_def getMouseHoverCell_def clampHoverCell_def
        zoneCallback_def defaultCallbacks_def classes_defs deepEquals_def last_init_def
        matrix_10x10_def ex_room_def ex_ctx_def cb_IL_def ex_row_def ex_drag_def Let_def)
  have second: "hover (new_HoverService None None) ex_drag ex_row ex_actions ex_room
       \<lparr>vx = 15, vy = 15\<rparr> None
       (Map.empty(''10x10'' \<mapsto> memoKey ex_drag ex_row ex_actions ex_ctx))
     = Inr \<lparr>last_out = Map.empty(''10x10'' \<mapsto> memoKey ex_drag ex_row ex_actions ex_ctx),
            calls = [], logged = []\<rparr>"
    by (simp add: hover_def new_HoverService_def defaultMatrices_def computeHover_def
        hoverContext_def getRoomScale_def js_index_def getMouseHoverCell_def clampHoverCell_def
        zoneCallback_def defaultCallbacks_def classes_defs deepEquals_def
        matrix_10x10_def ex_room_def ex_ctx_def Let_def)
  show ?thesis
    by (simp add: first second calls_of_def last_of_def)
qed

text \<open>
  Claim C2, as amended. Of two consecutive invocations of \<^verbatim>\<open>hover\<close> with
  structurally identical arguments (dragged and hovered nodes of the same identities,
  the same action-dispatch object, room, mouse and matrix name), the second makes no
  call on the action-dispatch object and leaves the cache as the first left it, so the
  calls of the pair are those of the first invocation. When the first is a
  classification hit on a slot that does not hold its key, these are the calls of the
  interpreter of the located zone, and the slot then holds the key. With the default
  interpreter table the pair dispatches exactly one action in every case but three, in
  which it dispatches none: a classification miss, a slot that already holds the key,
  and an inline zone (\<open>IL\<close>, \<open>IR\<close>) with a row as dragged or hovered node.
\<close>

theorem hover_twice:
  assumes "node_id drag' = node_id drag" and "node_id hovered' = node_id hovered"
  shows
    "(let use = (case matrix_name of None \<Rightarrow> ''10x10'' | Some n \<Rightarrow> n);
          first = hover this drag hovered actions room mouse matrix_name cache;
          cache' = last_of cache first;
          second = hover this drag' hovered' actions room mouse matrix_name cache'
      in calls_of second = []
         \<and> last_of cache' second = cache'
         \<and> calls_of first @ calls_of second = calls_of first
         \<and> (\<forall>matrix ctx cb.
               matrices this use = Some matrix
               \<and> hoverContext room mouse matrix = Inr ctx
               \<and> zoneCallback (callbacks this) matrix (ctx_position ctx) = Inr (Some cb)
               \<and> cache use \<noteq> Some (memoKey drag hovered actions ctx)
               \<longrightarrow> calls_of first @ calls_of second = cb drag hovered actions ctx
                   \<and> cache' = cache(use \<mapsto> memoKey drag hovered actions ctx))
         \<and> (callbacks this = defaultCallbacks \<longrightarrow>
               length (calls_of first @ calls_of second) \<le> 1
               \<and> (length (calls_of first @ calls_of second) = 1 \<longleftrightarrow>
                    (\<exists>matrix ctx r code.
                        matrices this use = Some matrix
                      \<and> hoverContext room mouse matrix = Inr ctx
                      \<and> js_index matrix (row (ctx_position ctx)) = Some r
                      \<and> js_index r (cell (ctx_position ctx)) = Some code
                      \<and> defaultCallbacks code \<noteq> None
                      \<and> cache use \<noteq> Some (memoKey drag hovered actions ctx)
                      \<and> \<not> ((code = c_IL \<or> code = c_IR)
                             \<and> (isRow drag \<or> isRow hovered))))))"
proof -
  let ?use = "case matrix_name of None \<Rightarrow> ''10x10'' | Some n \<Rightarrow> n"
  show ?thesis
  proof (cases "matrices this ?use")
    case None
    then have h: "hover this d h actions room mouse matrix_name c = Inl TypeError" for d h c
      by (simp add: hover_def Let_def)
    show ?thesis
      unfolding Let_def h using None by (simp add: calls_of_def last_of_def)
  next
    case (Some matrix)
    let ?first = "computeHover drag hovered actions room mouse matrix (callbacks this) ?use cache"
    let ?second = "computeHover drag' hovered' actions room mouse matrix (callbacks this) ?use
                     (last_of cache ?first)"
    have h: "hover this d h actions room mouse matrix_name c
             = computeHover d h actions room mouse matrix (callbacks this) ?use c" for d h c
      using Some by (simp add: hover_def Let_def)
    have two: "calls_of ?second = []"
      "last_of (last_of cache ?first) ?second = last_of cache ?first"
      using computeHover_twice_ids [OF assms, of actions room mouse matrix "callbacks this" ?use cache]
      by blast+
    have app: "calls_of ?first @ calls_of ?second = calls_of ?first"
      by (simp only: two(1) append_Nil2)
    have hit: "\<forall>matrix' ctx cb.
               matrices this ?use = Some matrix'
               \<and> hoverContext room mouse matrix' = Inr ctx
               \<and> zoneCallback (callbacks this) matrix' (ctx_position ctx) = Inr (Some cb)
               \<and> cache ?use \<noteq> Some (memoKey drag hovered actions ctx)
               \<longrightarrow> calls_of ?first @ calls_of ?second = cb drag hovered actions ctx
                   \<and> last_of cache ?first = cache(?use \<mapsto> memoKey drag hovered actions ctx)"
    proof (intro allI impI, elim conjE)
      fix matrix' ctx cb
      assume m: "matrices this ?use = Some matrix'"
        and c: "hoverContext room mouse matrix' = Inr ctx"
        and z: "zoneCallback (callbacks this) matrix' (ctx_position ctx) = Inr (Some cb)"
        and k: "cache ?use \<noteq> Some (memoKey drag hovered actions ctx)"
      from m Some have e: "matrix' = matrix" by simp
      note f = computeHover_hit [where cache = cache and m = ?use, OF c z k, unfolded e]
      show "calls_of ?first @ calls_of ?second = cb drag hovered actions ctx
            \<and> last_of cache ?first = cache(?use \<mapsto> memoKey drag hovered actions ctx)"
        unfolding app by (simp add: f calls_of_def last_of_def)
    qed
    have dflt: "callbacks this = defaultCallbacks \<longrightarrow>
               length (calls_of ?first @ calls_of ?second) \<le> 1
               \<and> (length (calls_of ?first @ calls_of ?second) = 1 \<longleftrightarrow>
                    (\<exists>matrix' ctx r code.
                        matrices this ?use = Some matrix'
                      \<and> hoverContext room mouse matrix' = Inr ctx
                      \<and> js_index matrix' (row (ctx_position ctx)) = Some r
                      \<and> js_index r (cell (ctx_position ctx)) = Some code
                      \<and> defaultCallbacks code \<noteq> None
                      \<and> cache ?use \<noteq> Some (memoKey drag hovered actions ctx)
                      \<and> \<not> ((code = c_IL \<or> code = c_IR)
                             \<and> (isRow drag \<or> isRow hovered))))"
    proof
      assume d: "callbacks this = defaultCallbacks"
      have le: "length (calls_of ?first) \<le> 1"
        using computeHover_default_at_most_one [of drag hovered actions room mouse matrix ?use cache]
        by (simp only: d)
      have ex: "(\<exists>matrix' ctx r code.
                        matrices this ?use = Some matrix'
                      \<and> hoverContext room mouse matrix' = Inr ctx
                      \<and> js_index matrix' (row (ctx_position ctx)) = Some r
                      \<and> js_index r (cell (ctx_position ctx)) = Some code
                      \<and> defaultCallbacks code \<noteq> None
                      \<and> cache ?use \<noteq> Some (memoKey drag hovered actions ctx)
                      \<and> \<not> ((code = c_IL \<or> code = c_IR)
                             \<and> (isRow drag \<or> isRow hovered)))
                \<longleftrightarrow> (\<exists>ctx r code.
                        hoverContext room mouse matrix = Inr ctx
                      \<and> js_index matrix (row (ctx_position ctx)) = Some r
                      \<and> js_index r (cell (ctx_position ctx)) = Some code
                      \<and> defaultCallbacks code \<noteq> None
                      \<and> cache ?use \<noteq> Some (memoKey drag hovered actions ctx)
                      \<and> \<not> ((code = c_IL \<or> code = c_IR)
                             \<and> (isRow drag \<or> isRow hovered)))"
        unfolding Some by blast
      have one: "length (calls_of ?first) = 1 \<longleftrightarrow>
                 (\<exists>ctx r code.
                        hoverContext room mouse matrix = Inr ctx
                      \<and> js_index matrix (row (ctx_position ctx)) = Some r
                      \<and> js_index r (cell (ctx_position ctx)) = Some code
                      \<and> defaultCallbacks code \<noteq> None
                      \<and> cache ?use \<noteq> Some (memoKey drag hovered actions ctx)
                      \<and> \<not> ((code = c_IL \<or> code = c_IR)
                             \<and> (isRow drag \<or> isRow hovered)))"
        unfolding d by (rule computeHover_default_one_iff)
      show "length (calls_of ?first @ calls_of ?second) \<le> 1
               \<and> (length (calls_of ?first @ calls_of ?second) = 1 \<longleftrightarrow>
                    (\<exists>matrix' ctx r code.
                        matrices this ?use = Some matrix'
                      \<and> hoverContext room mouse matrix' = Inr ctx
                      \<and> js_index matrix' (row (ctx_position ctx)) = Some r
                      \<and> js_index r (cell (ctx_position ctx)) = Some code
                      \<and> defaultCallbacks code \<noteq> None
                      \<and> cache ?use \<noteq> Some (memoKey drag hovered actions ctx)
                      \<and> \<not> ((code = c_IL \<or> code = c_IR)
                             \<and> (isRow drag \<or> isRow hovered))))"
        unfolding app ex using le one by blast
    qed
    show ?thesis
      unfolding Let_def h using two app hit dflt by (intro conjI)
  qed
qed

text \<open>
  At the top-left corner of the 10x10 matrix, on an empty cache, the pair dispatches
  exactly once, also when the second invocation passes other nodes of the same
  identities.
\<close>

theorem hover_twice_witness:
  "node_id ex_drag_right = node_id ex_drag \<and> node_id ex_cell_neighbour = node_id ex_cell
   \<and> callbacks (new_HoverService None None) = defaultCallbacks
   \<and> calls_of (hover (new_HoverService None None) ex_drag ex_cell ex_actions ex_room
        \<lparr>vx = 2, vy = 8\<rparr> None last_init) = [LeftOf ex_drag ex_cell 0]
   \<and> calls_of (hover (new_HoverService None None) ex_drag_right ex_cell_neighbour ex_actions
        ex_room \<lparr>vx = 2, vy = 8\<rparr> None
        (last_of last_init (hover (new_HoverService None None) ex_drag ex_cell ex_actions ex_room
           \<lparr>vx = 2, vy = 8\<rparr> None last_init))) = []
   \<and> length (calls_of (hover (new_HoverService None None) ex_drag ex_cell ex_actions ex_room
        \<lparr>vx = 2, vy = 8\<rparr> None last_init)
       @ calls_of (hover (new_HoverService None None) ex_drag_right ex_cell_neighbour ex_actions
        ex_room \<lparr>vx = 2, vy = 8\<rparr> None
        (last_of last_init (hover (new_HoverService None None) ex_drag ex_cell ex_actions ex_room
           \<lparr>vx = 2, vy = 8\<rparr> None last_init)))) = 1"
proof -
  have i1: "node_id ex_drag_right = node_id ex_drag"
    by (simp add: ex_drag_right_def ex_drag_def)
  have i2: "node_id ex_cell_neighbour = node_id ex_cell"
    by (simp add: ex_cell_neighbour_def ex_cell_def)
  have d: "callbacks (new_HoverService None None) = defaultCallbacks"
    by (simp add: new_HoverService_def)
  have first: "calls_of (hover (new_HoverService None None) ex_drag ex_cell ex_actions ex_room
        \<lparr>vx = 2, vy = 8\<rparr> None last_init) = [LeftOf ex_drag ex_cell 0]"
    by (simp add: engine_defs matrix_10x10_def ex_room_def cb_C1_def ex_cell_def)
  from hover_twice [OF i1 i2, of None "new_HoverService None None" ex_actions ex_room
      "\<lparr>vx = 2, vy = 8\<rparr>" last_init]
  have second: "calls_of (hover (new_HoverService None None) ex_drag_right ex_cell_neighbour
        ex_actions ex_room \<lparr>vx = 2, vy = 8\<rparr> None
        (last_of last_init (hover (new_HoverService None None) ex_drag ex_cell ex_actions ex_room
           \<lparr>vx = 2, vy = 8\<rparr> None last_init))) = []"
    by (simp only: Let_def)
  show ?thesis
    by (simp add: i1 i2 d first second)
qed

subsection \<open>The corner interpreters (claim C6)\<close>

lemma relativeMousePosition_less:
  "vx (relativeMousePosition mouse position scale) < vy (relativeMousePosition mouse position scale)
   \<longleftrightarrow> round (vx mouse - real_of_int (cell position) * vx scale)
       < round (vy mouse - real_of_int (row position) * vy scale)"
  "vy (relativeMousePosition mouse position scale) < vx (relativeMousePosition mouse position scale)
   \<longleftrightarrow> round (vy mouse - real_of_int (row position) * vy scale)
       < round (vx mouse - real_of_int (cell position) * vx scale)"
  by (simp_all add: relativeMousePosition_def)

text \<open>
  Claim C6. The corner interpreters decide by the position of the mouse relative to
  the located cell, \<open>x = round (mouse.x - cell * scale.x)\<close> and
  \<open>y = round (mouse.y - row * scale.y)\<close>: \<open>C1\<close> dispatches \<^verbatim>\<open>leftOf\<close> when
  \<open>x < y\<close> and \<^verbatim>\<open>above\<close> otherwise, \<open>C2\<close> \<^verbatim>\<open>rightOf\<close> when \<open>x > y\<close> and
  \<^verbatim>\<open>above\<close> otherwise, \<open>C3\<close> \<^verbatim>\<open>rightOf\<close> when \<open>x > y\<close> and \<^verbatim>\<open>below\<close>
  otherwise, \<open>C4\<close> \<^verbatim>\<open>leftOf\<close> when \<open>x < y\<close> and \<^verbatim>\<open>below\<close> otherwise, each
  at level 0, or level 1 if the hovered node is an inline cell. With the 10x10 matrix
  and a room of 100 by 100, over a cell that is not inline and on an empty cache, the
  mouse at \<open>(2, 8)\<close> dispatches \<^verbatim>\<open>leftOf\<close> at level 0 and the mouse at \<open>(8, 2)\<close>
  dispatches \<^verbatim>\<open>above\<close> at level 0. Away from the diagonal of the room the
  relative and the absolute position order differently: in the \<open>C2\<close> cell of row 4
  the mouse at \<open>(52, 48)\<close> is at \<open>(2, 8)\<close> in the cell and dispatches \<^verbatim>\<open>above\<close>;
  in the \<open>C4\<close> cell of row 5 the mouse at \<open>(48, 52)\<close> is at \<open>(8, 2)\<close> and
  dispatches \<^verbatim>\<open>below\<close>; in a room of 200 by 100 the mouse at \<open>(82, 48)\<close> is at
  \<open>(2, 8)\<close> in the \<open>C1\<close> cell of row 4 and dispatches \<^verbatim>\<open>leftOf\<close>.
\<close>

theorem corner_interpreters:
  "(let rx = round (vx (ctx_mouse ctx) - real_of_int (cell (ctx_position ctx)) * vx (ctx_scale ctx));
        ry = round (vy (ctx_mouse ctx) - real_of_int (row (ctx_position ctx)) * vy (ctx_scale ctx));
        lvl = (case hovered of
                 Row i l \<Rightarrow> (0::int)
               | Cell i l inl nb c \<Rightarrow> (if inl = None then 0 else 1))
    in relativeMousePosition (ctx_mouse ctx) (ctx_position ctx) (ctx_scale ctx)
         = \<lparr>vx = real_of_int rx, vy = real_of_int ry\<rparr>
       \<and> defaultCallbacks c_C1 = Some cb_C1 \<and> defaultCallbacks c_C2 = Some cb_C2
       \<and> defaultCallbacks c_C3 = Some cb_C3 \<and> defaultCallbacks c_C4 = Some cb_C4
       \<and> cb_C1 item hovered actions ctx
           = (if rx < ry then [LeftOf item hovered lvl] else [Above item hovered lvl])
       \<and> cb_C2 item hovered actions ctx
           = (if rx > ry then [RightOf item hovered lvl] else [Above item hovered lvl])
       \<and> cb_C3 item hovered actions ctx
           = (if rx > ry then [RightOf item hovered lvl] else [Below item hovered lvl])
       \<and> cb_C4 item hovered actions ctx
           = (if rx < ry then [LeftOf item hovered lvl] else [Below item hovered lvl]))
   \<and> calls_of (hover (new_HoverService None None) item (Cell hid hlv None hnb hc) actions
        \<lparr>width = 100, height = 100\<rparr> \<lparr>vx = 2, vy = 8\<rparr> (Some ''10x10'') last_init)
       = [LeftOf item (Cell hid hlv None hnb hc) 0]
   \<and> calls_of (hover (new_HoverService None None) item (Cell hid hlv None hnb hc) actions
        \<lparr>width = 100, height = 100\<rparr> \<lparr>vx = 8, vy = 2\<rparr> (Some ''10x10'') last_init)
       = [Above item (Cell hid hlv None hnb hc) 0]
   \<and> calls_of (hover (new_HoverService None None) item (Cell hid hlv None hnb hc) actions
        \<lparr>width = 100, height = 100\<rparr> \<lparr>vx = 52, vy = 48\<rparr> (Some ''10x10'') last_init)
       = [Above item (Cell hid hlv None hnb hc) 0]
   \<and> calls_of (hover (new_HoverService None None) item (Cell hid hlv None hnb hc) actions
        \<lparr>width = 100, height = 100\<rparr> \<lparr>vx = 58, vy = 42\<rparr> (Some ''10x10'') last_init)
       = [RightOf item (Cell hid hlv None hnb hc) 0]
   \<and> calls_of (hover (new_HoverService None None) item (Cell hid hlv None hnb hc) actions
        \<lparr>width = 100, height = 100\<rparr> \<lparr>vx = 48, vy = 52\<rparr> (Some ''10x10'') last_init)
       = [Below item (Cell hid hlv None hnb hc) 0]
   \<and> calls_of (hover (new_HoverService None None) item (Cell hid hlv None hnb hc) actions
        \<lparr>width = 100, height = 100\<rparr> \<lparr>vx = 42, vy = 58\<rparr> (Some ''10x10'') last_init)
       = [LeftOf item (Cell hid hlv None hnb hc) 0]
   \<and> calls_of (hover (new_HoverService None None) item (Cell hid hlv None hnb hc) actions
        \<lparr>width = 200, height = 100\<rparr> \<lparr>vx = 82, vy = 48\<rparr> (Some ''10x10'') last_init)
       = [LeftOf item (Cell hid hlv None hnb hc) 0]
   \<and> calls_of (hover (new_HoverService None None) item (Cell hid hlv None hnb hc) actions
        \<lparr>width = 200, height = 100\<rparr> \<lparr>vx = 118, vy = 52\<rparr> (Some ''10x10'') last_init)
       = [RightOf item (Cell hid hlv None hnb hc) 0]"
proof -
  have lvl: "getDropLevel hovered
             = (case hovered of
                  Row i l \<Rightarrow> (0::int)
                | Cell i l inl nb c \<Rightarrow> (if inl = None then 0 else 1))"
    by (cases hovered) (simp_all add: getDropLevel_def)
  have rel: "relativeMousePosition (ctx_mouse ctx) (ctx_position ctx) (ctx_scale ctx)
         = \<lparr>vx = real_of_int (round (vx (ctx_mouse ctx)
                  - real_of_int (cell (ctx_position ctx)) * vx (ctx_scale ctx))),
            vy = real_of_int (round (vy (ctx_mouse ctx)
                  - real_of_int (row (ctx_position ctx)) * vy (ctx_scale ctx)))\<rparr>"
    by (simp add: relativeMousePosition_def)
  have reg: "defaultCallbacks c_C1 = Some cb_C1" "defaultCallbacks c_C2 = Some cb_C2"
    "defaultCallbacks c_C3 = Some cb_C3" "defaultCallbacks c_C4 = Some cb_C4"
    by (simp_all add: defaultCallbacks_def classes_defs)
  have corners:
    "cb_C1 item hovered actions ctx
       = (if round (vx (ctx_mouse ctx) - real_of_int (cell (ctx_position ctx)) * vx (ctx_scale ctx))
             < round (vy (ctx_mouse ctx) - real_of_int (row (ctx_position ctx)) * vy (ctx_scale ctx))
          then [LeftOf item hovered (getDropLevel hovered)]
          else [Above item hovered (getDropLevel hovered)])"
    "cb_C2 item hovered actions ctx
       = (if round (vy (ctx_mouse ctx) - real_of_int (row (ctx_position ctx)) * vy (ctx_scale ctx))
             < round (vx (ctx_mouse ctx) - real_of_int (cell (ctx_position ctx)) * vx (ctx_scale ctx))
          then [RightOf item hovered (getDropLevel hovered)]
          else [Above item hovered (getDropLevel hovered)])"
    "cb_C3 item hovered actions ctx
       = (if round (vy (ctx_mouse ctx) - real_of_int (row (ctx_position ctx)) * vy (ctx_scale ctx))
             < round (vx (ctx_mouse ctx) - real_of_int (cell (ctx_position ctx)) * vx (ctx_scale ctx))
          then [RightOf item hovered (getDropLevel hovered)]
          else [Below item hovered (getDropLevel hovered)])"
    "cb_C4 item hovered actions ctx
       = (if round (vx (ctx_mouse ctx) - real_of_int (cell (ctx_position ctx)) * vx (ctx_scale ctx))
             < round (vy (ctx_mouse ctx) - real_of_int (row (ctx_position ctx)) * vy (ctx_scale ctx))
          then [LeftOf item hovered (getDropLevel hovered)]
          else [Below item hovered (getDropLevel hovered)])"
    by (simp_all only: cb_C1_def cb_C2_def cb_C3_def cb_C4_def Let_def relativeMousePosition_less)
  have general:
    "(let rx = round (vx (ctx_mouse ctx) - real_of_int (cell (ctx_position ctx)) * vx (ctx_scale ctx));
        ry = round (vy (ctx_mouse ctx) - real_of_int (row (ctx_position ctx)) * vy (ctx_scale ctx));
        lvl = (case hovered of
                 Row i l \<Rightarrow> (0::int)
               | Cell i l inl nb c \<Rightarrow> (if inl = None then 0 else 1))
    in relativeMousePosition (ctx_mouse ctx) (ctx_position ctx) (ctx_scale ctx)
         = \<lparr>vx = real_of_int rx, vy = real_of_int ry\<rparr>
       \<and> defaultCallbacks c_C1 = Some cb_C1 \<and> defaultCallbacks c_C2 = Some cb_C2
       \<and> defaultCallbacks c_C3 = Some cb_C3 \<and> defaultCallbacks c_C4 = Some cb_C4
       \<and> cb_C1 item hovered actions ctx
           = (if rx < ry then [LeftOf item hovered lvl] else [Above item hovered lvl])
       \<and> cb_C2 item hovered actions ctx
           = (if rx > ry then [RightOf item hovered lvl] else [Above item hovered lvl])
       \<and> cb_C3 item hovered actions ctx
           = (if rx > ry then [RightOf item hovered lvl] else [Below item hovered lvl])
       \<and> cb_C4 item hovered actions ctx
           = (if rx < ry then [LeftOf item hovered lvl] else [Below item hovered lvl]))"
    unfolding Let_def lvl [symmetric] using rel reg corners by (intro conjI)
  have a: "calls_of (hover (new_HoverService None None) item (Cell hid hlv None hnb hc) actions
        \<lparr>width = 100, height = 100\<rparr> \<lparr>vx = 2, vy = 8\<rparr> (Some ''10x10'') last_init)
       = [LeftOf item (Cell hid hlv None hnb hc) 0]"
    by (simp add: engine_defs matrix_10x10_def cb_C1_def)
  have b: "calls_of (hover (new_HoverService None None) item (Cell hid hlv None hnb hc) actions
        \<lparr>width = 100, height = 100\<rparr> \<lparr>vx = 8, vy = 2\<rparr> (Some ''10x10'') last_init)
       = [Above item (Cell hid hlv None hnb hc) 0]"
    by (simp add: engine_defs matrix_10x10_def cb_C1_def)
  have c: "calls_of (hover (new_HoverService None None) item (Cell hid hlv None hnb hc) actions
        \<lparr>width = 100, height = 100\<rparr> \<lparr>vx = 52, vy = 48\<rparr> (Some ''10x10'') last_init)
       = [Above item (Cell hid hlv None hnb hc) 0]"
    by (simp add: engine_defs matrix_10x10_def cb_C2_def)
  have d: "calls_of (hover (new_HoverService None None) item (Cell hid hlv None hnb hc) actions
        \<lparr>width = 100, height = 100\<rparr> \<lparr>vx = 58, vy = 42\<rparr> (Some ''10x10'') last_init)
       = [RightOf item (Cell hid hlv None hnb hc) 0]"
    by (simp add: engine_defs matrix_10x10_def cb_C2_def)
  have e: "calls_of (hover (new_HoverService None None) item (Cell hid hlv None hnb hc) actions
        \<lparr>width = 100, height = 100\<rparr> \<lparr>vx = 48, vy = 52\<rparr> (Some ''10x10'') last_init)
       = [Below item (Cell hid hlv None hnb hc) 0]"
    by (simp add: engine_defs matrix_10x10_def cb_C4_def)
  have f: "calls_of (hover (new_HoverService None None) item (Cell hid hlv None hnb hc) actions
        \<lparr>width = 100, height = 100\<rparr> \<lparr>vx = 42, vy = 58\<rparr> (Some ''10x10'') last_init)
       = [LeftOf item (Cell hid hlv None hnb hc) 0]"
    by (simp add: engine_defs matrix_10x10_def cb_C4_def)
  have g: "calls_of (hover (new_HoverService None None) item (Cell hid hlv None hnb hc) actions
        \<lparr>width = 200, height = 100\<rparr> \<lparr>vx = 82, vy = 48\<rparr> (Some ''10x10'') last_init)
       = [LeftOf item (Cell hid hlv None hnb hc) 0]"
    by (simp add: engine_defs matrix_10x10_def cb_C1_def)
  have h: "calls_of (hover (new_HoverService None None) item (Cell hid hlv None hnb hc) actions
        \<lparr>width = 200, height = 100\<rparr> \<lparr>vx = 118, vy = 52\<rparr> (Some ''10x10'') last_init)
       = [RightOf item (Cell hid hlv None hnb hc) 0]"
    by (simp add: engine_defs matrix_10x10_def cb_C3_def)
  from general a b c d e f g h show ?thesis by (intro conjI)
qed

theorem corner_interpreters_witness:
  "relativeMousePosition \<lparr>vx = 52, vy = 48\<rparr> \<lparr>row = 4, cell = 5\<rparr> \<lparr>vx = 10, vy = 10\<rparr>
     = \<lparr>vx = 2, vy = 8\<rparr>
   \<and> cb_C2 ex_drag ex_cell ex_actions
        (ex_ctx\<lparr>ctx_mouse := \<lparr>vx = 52, vy = 48\<rparr>, ctx_position := \<lparr>row = 4, cell = 5\<rparr>\<rparr>)
       = [Above ex_drag ex_cell 0]
   \<and> cb_C1 ex_drag (Cell ''inline'' ex_levels (Some SideLeft) None None) ex_actions
        (ex_ctx\<lparr>ctx_mouse := \<lparr>vx = 52, vy = 48\<rparr>, ctx_position := \<lparr>row = 4, cell = 5\<rparr>\<rparr>)
       = [LeftOf ex_drag (Cell ''inline'' ex_levels (Some SideLeft) None None) 1]
   \<and> cb_C4 ex_drag ex_row ex_actions
        (ex_ctx\<lparr>ctx_mouse := \<lparr>vx = 48, vy = 52\<rparr>, ctx_position := \<lparr>row = 5, cell = 4\<rparr>\<rparr>)
       = [Below ex_drag ex_row 0]
   \<and> cb_C3 ex_drag ex_cell ex_actions
        (ex_ctx\<lparr>ctx_mouse := \<lparr>vx = 48, vy = 52\<rparr>, ctx_position := \<lparr>row = 5, cell = 4\<rparr>\<rparr>)
       = [RightOf ex_drag ex_cell 0]
   \<and> calls_of (hover (new_HoverService None None) ex_drag ex_cell ex_actions
        \<lparr>width = 100, height = 100\<rparr> \<lparr>vx = 2, vy = 8\<rparr> (Some ''10x10'') last_init)
       = [LeftOf ex_drag ex_cell 0]
   \<and> calls_of (hover (new_HoverService None None) ex_drag ex_cell ex_actions
        \<lparr>width = 100, height = 100\<rparr> \<lparr>vx = 8, vy = 2\<rparr> (Some ''10x10'') last_init)
       = [Above ex_drag ex_cell 0]
   \<and> calls_of (hover (new_HoverService None None) ex_drag ex_cell ex_actions
        \<lparr>width = 100, height = 100\<rparr> \<lparr>vx = 52, vy = 48\<rparr> (Some ''10x10'') last_init)
       = [Above ex_drag ex_cell 0]
   \<and> calls_of (hover (new_HoverService None None) ex_drag ex_cell ex_actions
        \<lparr>width = 100, height = 100\<rparr> \<lparr>vx = 48, vy = 52\<rparr> (Some ''10x10'') last_init)
       = [Below ex_drag ex_cell 0]"
proof -
  let ?A = "ex_ctx\<lparr>ctx_mouse := \<lparr>vx = 52, vy = 48\<rparr>, ctx_position := \<lparr>row = 4, cell = 5\<rparr>\<rparr>"
  let ?B = "ex_ctx\<lparr>ctx_mouse := \<lparr>vx = 48, vy = 52\<rparr>, ctx_position := \<lparr>row = 5, cell = 4\<rparr>\<rparr>"
  have sel: "ctx_mouse ?A = \<lparr>vx = 52, vy = 48\<rparr>" "ctx_position ?A = \<lparr>row = 4, cell = 5\<rparr>"
    "ctx_scale ?A = \<lparr>vx = 10, vy = 10\<rparr>"
    "ctx_mouse ?B = \<lparr>vx = 48, vy = 52\<rparr>" "ctx_position ?B = \<lparr>row = 5, cell = 4\<rparr>"
    "ctx_scale ?B = \<lparr>vx = 10, vy = 10\<rparr>"
    by (simp_all add: ex_ctx_def)
  have c: "ex_cell = Cell ''hovered'' ex_levels None None None" by (simp add: ex_cell_def)
  have r: "ex_row = Row ''row'' ex_levels" by (simp add: ex_row_def)
  note t1 = corner_interpreters [of ?A ex_cell ex_drag ex_actions "''hovered''" ex_levels None None]
  note t2 = corner_interpreters [of ?A "Cell ''inline'' ex_levels (Some SideLeft) None None"
      ex_drag ex_actions]
  note t3 = corner_interpreters [of ?B ex_row ex_drag ex_actions]
  note t4 = corner_interpreters [of ?B ex_cell ex_drag ex_actions]
  have rel: "relativeMousePosition \<lparr>vx = 52, vy = 48\<rparr> \<lparr>row = 4, cell = 5\<rparr> \<lparr>vx = 10, vy = 10\<rparr>
     = \<lparr>vx = 2, vy = 8\<rparr>"
    using t1 by (simp add: Let_def sel)
  have k1: "cb_C2 ex_drag ex_cell ex_actions ?A = [Above ex_drag ex_cell 0]"
    using t1 by (simp add: Let_def sel c)
  have k2: "cb_C1 ex_drag (Cell ''inline'' ex_levels (Some SideLeft) None None) ex_actions ?A
       = [LeftOf ex_drag (Cell ''inline'' ex_levels (Some SideLeft) None None) 1]"
    using t2 by (simp add: Let_def sel)
  have k3: "cb_C4 ex_drag ex_row ex_actions ?B = [Below ex_drag ex_row 0]"
    using t3 by (simp add: Let_def sel r)
  have k4: "cb_C3 ex_drag ex_cell ex_actions ?B = [RightOf ex_drag ex_cell 0]"
    using t4 by (simp add: Let_def sel c)
  have h: "calls_of (hover (new_HoverService None None) ex_drag ex_cell ex_actions
        \<lparr>width = 100, height = 100\<rparr> \<lparr>vx = 2, vy = 8\<rparr> (Some ''10x10'') last_init)
       = [LeftOf ex_drag ex_cell 0]"
    "calls_of (hover (new_HoverService None None) ex_drag ex_cell ex_actions
        \<lparr>width = 100, height = 100\<rparr> \<lparr>vx = 8, vy = 2\<rparr> (Some ''10x10'') last_init)
       = [Above ex_drag ex_cell 0]"
    "calls_of (hover (new_HoverService None None) ex_drag ex_cell ex_actions
        \<lparr>width = 100, height = 100\<rparr> \<lparr>vx = 52, vy = 48\<rparr> (Some ''10x10'') last_init)
       = [Above ex_drag ex_cell 0]"
    "calls_of (hover (new_HoverService None None) ex_drag ex_cell ex_actions
        \<lparr>width = 100, height = 100\<rparr> \<lparr>vx = 48, vy = 52\<rparr> (Some ''10x10'') last_init)
       = [Below ex_drag ex_cell 0]"
    using t1 unfolding c by blast+
  from rel k1 k2 k3 k4 h show ?thesis by (intro conjI)
qed

subsection \<open>The inline interpreters (claim C8)\<close>

lemma if_chain_merge:
  "(if r then a
    else if p \<or> \<not> q then b
    else if t \<and> \<not> n then b
    else if t \<and> n \<and> s then b
    else c)
   = (if r then a
      else if p \<or> \<not> q \<or> (t \<and> \<not> n) \<or> (t \<and> n \<and> s) then b
      else c)"
  by (cases r; cases p; cases q; cases t; cases n; cases s) simp_all

text \<open>
  The last disqualifier of the code is the same side, not the opposite one. When the
  dragged cell is the inline neighbour of the hovered cell and floats on the right, the
  zone \<open>IL\<close> dispatches \<^verbatim>\<open>inlineLeft\<close>; when it floats on the left, the zone
  \<open>IL\<close> falls back to \<^verbatim>\<open>leftOf\<close> at level 2.
\<close>

theorem inline_same_side_fallback:
  "cb_IL ex_drag_right ex_cell_neighbour ex_actions ex_ctx
     = [InlineLeft ex_drag_right ex_cell_neighbour]
   \<and> spec_inline SideLeft ex_drag_right ex_cell_neighbour
     = [LeftOf ex_drag_right ex_cell_neighbour 2]
   \<and> cb_IL ex_drag_left ex_cell_neighbour ex_actions ex_ctx
     = [LeftOf ex_drag_left ex_cell_neighbour 2]
   \<and> spec_inline SideLeft ex_drag_left ex_cell_neighbour
     = [InlineLeft ex_drag_left ex_cell_neighbour]
   \<and> cb_IL ex_drag_right ex_cell_neighbour ex_actions ex_ctx
     \<noteq> spec_inline SideLeft ex_drag_right ex_cell_neighbour"
  by (simp add: cb_IL_def spec_inline_def opposite_def ex_drag_right_def ex_drag_left_def
      ex_cell_neighbour_def isInlineable_of_def truthy_def)

text \<open>
  Claim C8, as amended. For zone \<open>IL\<close>: if the dragged or the hovered node is a row,
  no action is dispatched; otherwise, if the hovered node is itself inline, or the
  dragged node's plugin is not inline-capable, or the hovered node has an inline
  neighbour different from the dragged node, or has the dragged node as inline neighbour
  and the dragged node is inline on the left, then \<^verbatim>\<open>leftOf(dragged, hovered, 2)\<close> is
  dispatched; otherwise \<^verbatim>\<open>inlineLeft(dragged, hovered)\<close>, with no level. For zone
  \<open>IR\<close> the same holds with right for left, \<^verbatim>\<open>rightOf\<close> and \<^verbatim>\<open>inlineRight\<close>.
\<close>

theorem inline_interpreters:
  "defaultCallbacks c_IL = Some cb_IL \<and> defaultCallbacks c_IR = Some cb_IR
   \<and> cb_IL item hovered actions ctx =
       (if isRow item \<or> isRow hovered then []
        else if inline hovered \<noteq> None
                \<or> \<not> isInlineable_of item
                \<or> (truthy (hasInlineNeighbour hovered)
                    \<and> hasInlineNeighbour hovered \<noteq> Some (node_id item))
                \<or> (truthy (hasInlineNeighbour hovered)
                    \<and> hasInlineNeighbour hovered = Some (node_id item)
                    \<and> inline item = Some SideLeft)
          then [LeftOf item hovered 2]
        else [InlineLeft item hovered])
   \<and> cb_IR item hovered actions ctx =
       (if isRow item \<or> isRow hovered then []
        else if inline hovered \<noteq> None
                \<or> \<not> isInlineable_of item
                \<or> (truthy (hasInlineNeighbour hovered)
                    \<and> hasInlineNeighbour hovered \<noteq> Some (node_id item))
                \<or> (truthy (hasInlineNeighbour hovered)
                    \<and> hasInlineNeighbour hovered = Some (node_id item)
                    \<and> inline item = Some SideRight)
          then [RightOf item hovered 2]
        else [InlineRight item hovered])"
proof -
  have reg: "defaultCallbacks c_IL = Some cb_IL" "defaultCallbacks c_IR = Some cb_IR"
    by (simp_all add: defaultCallbacks_def classes_defs)
  have il: "cb_IL item hovered actions ctx =
       (if isRow item \<or> isRow hovered then []
        else if inline hovered \<noteq> None
                \<or> \<not> isInlineable_of item
                \<or> (truthy (hasInlineNeighbour hovered)
                    \<and> hasInlineNeighbour hovered \<noteq> Some (node_id item))
                \<or> (truthy (hasInlineNeighbour hovered)
                    \<and> hasInlineNeighbour hovered = Some (node_id item)
                    \<and> inline item = Some SideLeft)
          then [LeftOf item hovered 2]
        else [InlineLeft item hovered])"
    unfolding cb_IL_def by (rule if_chain_merge)
  have ir: "cb_IR item hovered actions ctx =
       (if isRow item \<or> isRow hovered then []
        else if inline hovered \<noteq> None
                \<or> \<not> isInlineable_of item
                \<or> (truthy (hasInlineNeighbour hovered)
                    \<and> hasInlineNeighbour hovered \<noteq> Some (node_id item))
                \<or> (truthy (hasInlineNeighbour hovered)
                    \<and> hasInlineNeighbour hovered = Some (node_id item)
                    \<and> inline item = Some SideRight)
          then [RightOf item hovered 2]
        else [InlineRight item hovered])"
    unfolding cb_IR_def by (rule if_chain_merge)
  from reg il ir show ?thesis by (intro conjI)
qed

theorem inline_interpreters_witness:
  "cb_IL ex_drag ex_row ex_actions ex_ctx = []
   \<and> cb_IL ex_cell (Cell ''hovered'' ex_levels (Some SideLeft) None None) ex_actions ex_ctx
       = [LeftOf ex_cell (Cell ''hovered'' ex_levels (Some SideLeft) None None) 2]
   \<and> cb_IL ex_drag ex_cell ex_actions ex_ctx = [InlineLeft ex_drag ex_cell]
   \<and> cb_IL ex_drag_left ex_cell_neighbour ex_actions ex_ctx
       = [LeftOf ex_drag_left ex_cell_neighbour 2]
   \<and> cb_IL ex_drag_right ex_cell_neighbour ex_actions ex_ctx
       = [InlineLeft ex_drag_right ex_cell_neighbour]
   \<and> cb_IR ex_drag_right ex_cell_neighbour ex_actions ex_ctx
       = [RightOf ex_drag_right ex_cell_neighbour 2]
   \<and> cb_IR ex_drag_left ex_cell_neighbour ex_actions ex_ctx
       = [InlineRight ex_drag_left ex_cell_neighbour]"
  using
    inline_interpreters [of ex_drag ex_row ex_actions ex_ctx]
    inline_interpreters [of ex_cell "Cell ''hovered'' ex_levels (Some SideLeft) None None"
      ex_actions ex_ctx]
    inline_interpreters [of ex_drag ex_cell ex_actions ex_ctx]
    inline_interpreters [of ex_drag_left ex_cell_neighbour ex_actions ex_ctx]
    inline_interpreters [of ex_drag_right ex_cell_neighbour ex_actions ex_ctx]
  by (simp add: ex_drag_def ex_row_def ex_cell_def ex_drag_left_def ex_drag_right_def
      ex_cell_neighbour_def isInlineable_of_def truthy_def)

subsection \<open>Classification miss (claim C9)\<close>

text \<open>
  Claim C9. When the matrix cell at the clamped index holds a code with no registered
  interpreter (in a room of positive width and height), \<^verbatim>\<open>hover\<close> returns without throwing, makes no call on the
  action-dispatch object, logs one diagnostic that carries the room, the mouse, the
  matrix, the scale, the clamped cell and the matrix dimensions, and leaves the cache
  as it was.
\<close>

theorem classification_miss:
  assumes "matrices this (case matrix_name of None \<Rightarrow> ''10x10'' | Some n \<Rightarrow> n) = Some matrix"
    and "0 < width room" and "0 < height room"
    and "getRoomScale room matrix = Inr scale"
    and "hoverCell = clampHoverCell (getMouseHoverCell mouse scale)
                       (int (length matrix)) (int (length (hd matrix)))"
    and "js_index matrix (row hoverCell) = Some r"
    and "js_index r (cell hoverCell) = Some code"
    and "callbacks this code = None"
  shows "hover this drag hovered actions room mouse matrix_name cache
         = Inr \<lparr>last_out = cache, calls = [],
                logged = [\<lparr>log_message = ''Matrix callback not found.'',
                           log_room = room, log_mouse = mouse, log_matrix = matrix,
                           log_scale = scale, log_hoverCell = hoverCell,
                           log_rows = int (length matrix),
                           log_cells = int (length (hd matrix))\<rparr>]\<rparr>"
proof -
  note sc = getRoomScale_InrD [OF assms(4)]
  have scale: "scale = \<lparr>vx = width room / real_of_int (int (length (hd matrix))),
                        vy = height room / real_of_int (int (length matrix))\<rparr>"
    using sc(2,3) by (cases scale) simp
  have ctx: "hoverContext room mouse matrix
             = Inr \<lparr>ctx_room = room, ctx_mouse = mouse, ctx_position = hoverCell,
                    ctx_size = \<lparr>size_rows = int (length matrix),
                                 size_cells = int (length (hd matrix))\<rparr>,
                    ctx_scale = scale\<rparr>"
    unfolding assms(5) scale by (rule hoverContext_Inr [OF sc(1)])
  have zc: "zoneCallback (callbacks this) matrix hoverCell = Inr None"
    by (simp add: zoneCallback_def assms(6,7,8))
  show ?thesis
    using assms(1) by (simp add: hover_def Let_def computeHover_cases ctx zc diagnostic_def)
qed

theorem classification_miss_witness:
  "matrices ex_service_custom (case Some ''custom'' of None \<Rightarrow> ''10x10'' | Some n \<Rightarrow> n)
     = Some ex_matrix_unregistered
   \<and> 0 < width ex_room \<and> 0 < height ex_room
   \<and> getRoomScale ex_room ex_matrix_unregistered = Inr \<lparr>vx = 100, vy = 100\<rparr>
   \<and> clampHoverCell (getMouseHoverCell \<lparr>vx = 150, vy = -3\<rparr> \<lparr>vx = 100, vy = 100\<rparr>)
        (int (length ex_matrix_unregistered)) (int (length (hd ex_matrix_unregistered)))
       = \<lparr>row = 0, cell = 0\<rparr>
   \<and> js_index ex_matrix_unregistered 0 = Some [999]
   \<and> js_index [999] 0 = Some (999::int)
   \<and> callbacks ex_service_custom 999 = None
   \<and> hover ex_service_custom ex_drag ex_cell ex_actions ex_room \<lparr>vx = 150, vy = -3\<rparr>
        (Some ''custom'') (Map.empty(''custom'' \<mapsto> memoKey ex_drag ex_cell ex_actions ex_ctx))
       = Inr \<lparr>last_out = Map.empty(''custom'' \<mapsto> memoKey ex_drag ex_cell ex_actions ex_ctx),
              calls = [],
              logged = [\<lparr>log_message = ''Matrix callback not found.'',
                         log_room = ex_room, log_mouse = \<lparr>vx = 150, vy = -3\<rparr>,
                         log_matrix = ex_matrix_unregistered,
                         log_scale = \<lparr>vx = 100, vy = 100\<rparr>,
                         log_hoverCell = \<lparr>row = 0, cell = 0\<rparr>,
                         log_rows = 1, log_cells = 1\<rparr>]\<rparr>"
proof -
  have m: "matrices ex_service_custom (case Some ''custom'' of None \<Rightarrow> ''10x10'' | Some n \<Rightarrow> n)
           = Some ex_matrix_unregistered"
    by (simp add: ex_service_custom_def new_HoverService_def)
  have wd: "0 < width ex_room" and ht: "0 < height ex_room" by (simp_all add: ex_room_def)
  have s: "getRoomScale ex_room ex_matrix_unregistered = Inr \<lparr>vx = 100, vy = 100\<rparr>"
    by (simp add: getRoomScale_def js_index_def ex_matrix_unregistered_def ex_room_def Let_def)
  have h: "\<lparr>row = 0, cell = 0\<rparr>
           = clampHoverCell (getMouseHoverCell \<lparr>vx = 150, vy = -3\<rparr> \<lparr>vx = 100, vy = 100\<rparr>)
               (int (length ex_matrix_unregistered)) (int (length (hd ex_matrix_unregistered)))"
    by (simp add: getMouseHoverCell_def clampHoverCell_def ex_matrix_unregistered_def Let_def)
  have r: "js_index ex_matrix_unregistered (row \<lparr>row = 0, cell = 0\<rparr>) = Some [999]"
    by (simp add: js_index_def ex_matrix_unregistered_def)
  have c: "js_index [999] (cell \<lparr>row = 0, cell = 0\<rparr>) = Some (999::int)"
    by (simp add: js_index_def)
  have n: "callbacks ex_service_custom 999 = None"
    by (simp add: ex_service_custom_def new_HoverService_def defaultCallbacks_def classes_defs)
  have l: "int (length ex_matrix_unregistered) = 1" "int (length (hd ex_matrix_unregistered)) = 1"
    by (simp_all add: ex_matrix_unregistered_def)
  from classification_miss [OF m wd ht s h r c n, of ex_drag ex_cell ex_actions
      "Map.empty(''custom'' \<mapsto> memoKey ex_drag ex_cell ex_actions ex_ctx)"]
  show ?thesis
    using m wd ht s h [symmetric] r c n by (simp add: l)
qed

end
